theory Spec2Isabelle
  imports Complex_Main "HOL-Library.Sublist" "HOL-Library.Char_ord" "HOL-Library.List_Lexorder"
begin

section \<open>JavaScript values, the console and the HTTP layer\<close>

text \<open>
  The client examples exchange JSON with the service. A JSON value is a value of the
  datatype \<open>json\<close>; an object is an association list in which the first binding of a
  key is the one a property read sees. A JavaScript expression that may be
  \<^verbatim>\<open>undefined\<close> has type \<open>json option\<close>, \<open>None\<close> being \<^verbatim>\<open>undefined\<close>.
  \<^verbatim>\<open>JSON.stringify\<close> and \<^verbatim>\<open>response.json()\<close> are not modelled as text: a request
  body is the JSON value its text denotes.
\<close>

datatype json =
    JNull
  | JBool bool
  | JNum rat
  | JStr string
  | JArr "json list"
  | JObj "(string \<times> json) list"

text \<open>The errors the examples throw or receive.\<close>

datatype js_error =
    FetchFailed string      \<comment> \<open>\<^verbatim>\<open>fetch\<close> rejected; the string is the error's message\<close>
  | HttpStatus nat          \<comment> \<open>\<^verbatim>\<open>HTTP error! status: ${status}\<close>\<close>
  | HttpStatusMessage nat "json option"
                            \<comment> \<open>\<^verbatim>\<open>HTTP error! status: ${status}, message: ${error.message}\<close>\<close>
  | JsonSyntaxError         \<comment> \<open>\<^verbatim>\<open>response.json()\<close> rejected: the body is not JSON\<close>
  | TypeError               \<comment> \<open>a property read on \<^verbatim>\<open>null\<close>\<close>
  | ResponseBodyIsNull      \<comment> \<open>\<^verbatim>\<open>Response body is null\<close>\<close>

datatype console_entry =
    ConsoleLog string
  | ConsoleWarn string
  | ConsoleError string "js_error option"

text \<open>JavaScript truthiness of a JSON value, and of a possibly undefined one.\<close>

fun truthy :: "json \<Rightarrow> bool" where
  "truthy JNull = False"
| "truthy (JBool b) = b"
| "truthy (JNum n) = (n \<noteq> 0)"
| "truthy (JStr s) = (s \<noteq> [])"
| "truthy (JArr xs) = True"
| "truthy (JObj fs) = True"

fun truthy_opt :: "json option \<Rightarrow> bool" where
  "truthy_opt None = False"
| "truthy_opt (Some v) = truthy v"

text \<open>
  The property read \<^verbatim>\<open>v.k\<close>: a TypeError on \<^verbatim>\<open>null\<close>, the bound value on an object,
  \<^verbatim>\<open>undefined\<close> on everything else (the keys read by the examples are no built-in
  properties of strings, numbers or arrays).
\<close>

fun get_prop :: "json \<Rightarrow> string \<Rightarrow> js_error + json option" where
  "get_prop JNull k = Inl TypeError"
| "get_prop (JObj fs) k = Inr (map_of fs k)"
| "get_prop v k = Inr None"

record http_request =
  request_url :: string
  http_method :: string
  headers :: "(string \<times> string) list"
  body :: "json option"

text \<open>
  A response as the examples read it: the \<^verbatim>\<open>ok\<close> flag, the status, and what
  \<^verbatim>\<open>response.json()\<close> resolves with (\<open>None\<close> when the body is not JSON and the
  promise rejects).
\<close>

record http_response =
  ok :: bool
  status :: nat
  json_body :: "json option"

datatype fetch_result = Rejected string | Resolved http_response

text \<open>A conversation turn \<^verbatim>\<open>{role, content}\<close>.\<close>

definition message_json :: "string \<times> string \<Rightarrow> json" where
  "message_json m = JObj [(''role'', JStr (fst m)), (''content'', JStr (snd m))]"

text \<open>The newline character, and the decimal rendering of a counter in a template literal.\<close>

definition nl :: string where
  "nl = [CHR 0x0A]"

definition digit_char :: "nat \<Rightarrow> char" where
  "digit_char d = ''0123456789'' ! d"

function show_nat :: "nat \<Rightarrow> string" where
  "show_nat n = (if n < 10 then [digit_char n] else show_nat (n div 10) @ [digit_char (n mod 10)])"
  by pat_completeness auto
termination
  by (relation "measure id") auto

declare show_nat.simps [simp del]

text \<open>
  The block shared by \<^verbatim>\<open>batchSearch\<close>, \<^verbatim>\<open>trackClick\<close> and \<^verbatim>\<open>searchProducts\<close>:
  on a response that is not ok the error body is read and an error with the status and
  the body's \<^verbatim>\<open>message\<close> is thrown; otherwise the parsed body is returned.
\<close>

definition json_or_throw :: "http_response \<Rightarrow> js_error + json" where
  "json_or_throw response =
     (if \<not> ok response then
        (case json_body response of
           None \<Rightarrow> Inl JsonSyntaxError
         | Some error \<Rightarrow>
             (case get_prop error ''message'' of
                Inl e \<Rightarrow> Inl e
              | Inr m \<Rightarrow> Inl (HttpStatusMessage (status response) m)))
      else
        (case json_body response of
           None \<Rightarrow> Inl JsonSyntaxError
         | Some v \<Rightarrow> Inr v))"

text \<open>
  \<^verbatim>\<open>try { ... } catch (error) { console.error(label, error); throw error; }\<close>:
  the error is logged and thrown again.
\<close>

definition log_and_rethrow :: "string \<Rightarrow> js_error + 'a \<Rightarrow> console_entry list \<times> (js_error + 'a)" where
  "log_and_rethrow label r =
     (case r of
        Inl e \<Rightarrow> ([ConsoleError label (Some e)], Inl e)
      | Inr v \<Rightarrow> ([], Inr v))"

section \<open>Batch search (examples/javascript/batch-search.js)\<close>

definition batch_query :: "string \<Rightarrow> json" where
  "batch_query query = JObj [(''query'', JStr query), (''limit'', JNum 3)]"

definition batchSearch_request :: "string list \<Rightarrow> string \<Rightarrow> http_request" where
  "batchSearch_request queries apiKey =
     \<lparr>request_url = ''https://api.ad-tokens.com/search/batch'',
      http_method = ''POST'',
      headers = [(''x-api-key'', apiKey), (''Content-Type'', ''application/json'')],
      body = Some (JObj [(''queries'', JArr (map batch_query queries))])\<rparr>"

definition batchSearch ::
  "(http_request \<Rightarrow> fetch_result) \<Rightarrow> string list \<Rightarrow> string
     \<Rightarrow> console_entry list \<times> (js_error + json)" where
  "batchSearch fetch queries apiKey =
     log_and_rethrow ''Batch search error:''
       (case fetch (batchSearch_request queries apiKey) of
          Rejected msg \<Rightarrow> Inl (FetchFailed msg)
        | Resolved response \<Rightarrow> json_or_throw response)"

text \<open>
  Modelled from the spec: the service behind \<^verbatim>\<open>POST /search/batch\<close>, whose code is
  not part of the repository. The spec gives the body \<^verbatim>\<open>{queries: [searchRequest, ...]}\<close>
  and the response "an ordered list of per-query results plus aggregate timing
  metadata". The search of one request and the timing metadata are parameters.
\<close>

definition search_batch_endpoint :: "(json \<Rightarrow> json) \<Rightarrow> json \<Rightarrow> http_request \<Rightarrow> fetch_result" where
  "search_batch_endpoint search_one timing req =
     (if request_url req = ''https://api.ad-tokens.com/search/batch'' \<and> http_method req = ''POST'' then
        (case body req of
           Some (JObj fs) \<Rightarrow>
             (case map_of fs ''queries'' of
                Some (JArr qs) \<Rightarrow>
                  Resolved \<lparr>ok = True, status = 200,
                    json_body = Some (JObj [(''results'', JArr (map search_one qs)), (''metadata'', timing)])\<rparr>
              | _ \<Rightarrow>
                  Resolved \<lparr>ok = False, status = 400,
                    json_body = Some (JObj [(''code'', JStr ''INVALID_INPUT''), (''message'', JStr ''queries'')])\<rparr>)
         | _ \<Rightarrow>
             Resolved \<lparr>ok = False, status = 400,
               json_body = Some (JObj [(''code'', JStr ''INVALID_INPUT''), (''message'', JStr ''body'')])\<rparr>)
      else
        Resolved \<lparr>ok = False, status = 404,
          json_body = Some (JObj [(''code'', JStr ''NOT_FOUND''), (''message'', JStr ''route'')])\<rparr>)"

section \<open>Click tracking (examples/javascript/batch-search.js, trackClick)\<close>

text \<open>
  \<^verbatim>\<open>requestId\<close> is an optional string whose default is \<^verbatim>\<open>null\<close> (\<open>None\<close>). The guard
  \<^verbatim>\<open>if (requestId)\<close> tests truthiness: \<^verbatim>\<open>null\<close> and the empty string fail it.
\<close>

definition truthy_string :: "string option \<Rightarrow> bool" where
  "truthy_string s = (case s of None \<Rightarrow> False | Some t \<Rightarrow> t \<noteq> [])"

definition trackClick_payload :: "string option \<Rightarrow> json" where
  "trackClick_payload requestId =
     JObj (if truthy_string requestId then [(''request_id'', JStr (the requestId))] else [])"

definition trackClick_request :: "string \<Rightarrow> string \<Rightarrow> string option \<Rightarrow> http_request" where
  "trackClick_request impressionId apiKey requestId =
     \<lparr>request_url = ''https://api.ad-tokens.com/clicks/'' @ impressionId,
      http_method = ''POST'',
      headers = [(''x-api-key'', apiKey), (''Content-Type'', ''application/json'')],
      body = Some (trackClick_payload requestId)\<rparr>"

definition trackClick ::
  "(http_request \<Rightarrow> fetch_result) \<Rightarrow> string \<Rightarrow> string \<Rightarrow> string option
     \<Rightarrow> console_entry list \<times> (js_error + json)" where
  "trackClick fetch impressionId apiKey requestId =
     log_and_rethrow ''Click tracking error:''
       (case fetch (trackClick_request impressionId apiKey requestId) of
          Rejected msg \<Rightarrow> Inl (FetchFailed msg)
        | Resolved response \<Rightarrow> json_or_throw response)"

section \<open>The agent wrapper (class AdTokensAgent, JavaScript and TypeScript)\<close>

record AdTokensAgent =
  apiKey :: string
  baseUrl :: string
  sessionId :: json

definition AdTokensAgent_new :: "string \<Rightarrow> AdTokensAgent" where
  "AdTokensAgent_new key = \<lparr>apiKey = key, baseUrl = ''https://api.ad-tokens.com'', sessionId = JNull\<rparr>"

text \<open>
  \<^verbatim>\<open>searchProducts(query, limit = 3, conversationContext = null)\<close>. The arguments of
  one call: the query, the limit when one is passed, the conversation when one is passed.
\<close>

record search_args =
  arg_query :: string
  arg_limit :: "int option"
  arg_context :: "(string \<times> string) list option"

definition searchProducts_payload :: "AdTokensAgent \<Rightarrow> search_args \<Rightarrow> json" where
  "searchProducts_payload self args =
     JObj ([(''query'', JStr (arg_query args)),
            (''limit'', JNum (of_int (case arg_limit args of None \<Rightarrow> 3 | Some l \<Rightarrow> l)))]
           @ (if truthy (sessionId self) then [(''session_id'', sessionId self)] else [])
           @ (case arg_context args of
                None \<Rightarrow> []
              | Some ctx \<Rightarrow> [(''conversation_context'', JArr (map message_json ctx))]))"

definition searchProducts_request :: "AdTokensAgent \<Rightarrow> search_args \<Rightarrow> http_request" where
  "searchProducts_request self args =
     \<lparr>request_url = baseUrl self @ ''/search'',
      http_method = ''POST'',
      headers = [(''x-api-key'', apiKey self), (''Content-Type'', ''application/json'')],
      body = Some (searchProducts_payload self args)\<rparr>"

text \<open>
  The session id a result makes the agent store:
  \<^verbatim>\<open>if (result.metadata && result.metadata.session_id) this.sessionId = ...\<close>
  (TypeScript: \<^verbatim>\<open>result.metadata?.session_id\<close>). Reading \<^verbatim>\<open>metadata\<close> of a \<^verbatim>\<open>null\<close>
  result is a TypeError in both.
\<close>

definition result_session_id :: "json \<Rightarrow> js_error + json option" where
  "result_session_id result =
     (case get_prop result ''metadata'' of
        Inl e \<Rightarrow> Inl e
      | Inr None \<Rightarrow> Inr None
      | Inr (Some m) \<Rightarrow>
          if truthy m then
            (case get_prop m ''session_id'' of
               Inl e \<Rightarrow> Inl e
             | Inr s \<Rightarrow> Inr (if truthy_opt s then s else None))
          else Inr None)"

definition searchProducts ::
  "(http_request \<Rightarrow> fetch_result) \<Rightarrow> AdTokensAgent \<Rightarrow> search_args
     \<Rightarrow> AdTokensAgent \<times> (js_error + json)" where
  "searchProducts fetch self args =
     (case fetch (searchProducts_request self args) of
        Rejected msg \<Rightarrow> (self, Inl (FetchFailed msg))
      | Resolved response \<Rightarrow>
          if \<not> ok response then (self, Inl (HttpStatus (status response)))
          else
            (case json_body response of
               None \<Rightarrow> (self, Inl JsonSyntaxError)
             | Some result \<Rightarrow>
                 (case result_session_id result of
                    Inl e \<Rightarrow> (self, Inl e)
                  | Inr None \<Rightarrow> (self, Inr result)
                  | Inr (Some s) \<Rightarrow> (self\<lparr>sessionId := s\<rparr>, Inr result))))"

text \<open>
  A sequence of calls on one agent, each with the service as it answers that call.
  The trace lists, for each call, the request sent and the answer \<^verbatim>\<open>fetch\<close> gave;
  the second component is the agent after the last call.
\<close>

fun searchProducts_calls ::
  "AdTokensAgent \<Rightarrow> (search_args \<times> (http_request \<Rightarrow> fetch_result)) list
     \<Rightarrow> (http_request \<times> fetch_result) list \<times> AdTokensAgent" where
  "searchProducts_calls self [] = ([], self)"
| "searchProducts_calls self ((args, fetch) # calls) =
     (case searchProducts_calls (fst (searchProducts fetch self args)) calls of
        (trace, final) \<Rightarrow>
          ((searchProducts_request self args, fetch (searchProducts_request self args)) # trace, final))"

text \<open>The \<^verbatim>\<open>session_id\<close> field of a request's payload, if it has one.\<close>

definition payload_session_id :: "http_request \<Rightarrow> json option" where
  "payload_session_id req = (case body req of Some (JObj fs) \<Rightarrow> map_of fs ''session_id'' | _ \<Rightarrow> None)"

text \<open>
  The session id that an answer of the service carries for the agent: the answer is an
  ok response whose parsed body is an object with an object \<^verbatim>\<open>metadata\<close> whose
  \<^verbatim>\<open>session_id\<close> is truthy.
\<close>

definition answer_session_id :: "fetch_result \<Rightarrow> json option" where
  "answer_session_id answer =
     (case answer of
        Rejected msg \<Rightarrow> None
      | Resolved response \<Rightarrow>
          if \<not> ok response then None
          else
            (case json_body response of
               Some (JObj fs) \<Rightarrow>
                 (case map_of fs ''metadata'' of
                    Some (JObj ms) \<Rightarrow>
                      (case map_of ms ''session_id'' of
                         None \<Rightarrow> None
                       | Some s \<Rightarrow> if truthy s then Some s else None)
                  | _ \<Rightarrow> None)
             | _ \<Rightarrow> None))"

text \<open>The session id the agent holds, if any: what the guard \<^verbatim>\<open>if (this.sessionId)\<close> lets through.\<close>

definition current_session :: "AdTokensAgent \<Rightarrow> json option" where
  "current_session self = (if truthy (sessionId self) then Some (sessionId self) else None)"

text \<open>The most recent session id among a list of answers, oldest first.\<close>

fun latest_session :: "json option \<Rightarrow> fetch_result list \<Rightarrow> json option" where
  "latest_session current [] = current"
| "latest_session current (answer # answers) =
     latest_session (case answer_session_id answer of None \<Rightarrow> current | Some s \<Rightarrow> Some s) answers"

text \<open>
  \<^verbatim>\<open>trackClick(impressionId)\<close> of the agent. \<^verbatim>\<open>fetch\<close> rejects with an Error object
  (a TypeError or a DOMException), so the TypeScript guard \<^verbatim>\<open>error instanceof Error\<close>
  holds whenever the handler runs; the response of a \<^verbatim>\<open>fetch\<close> that resolves is
  not looked at.
\<close>

definition AdTokensAgent_trackClick_request :: "AdTokensAgent \<Rightarrow> string \<Rightarrow> http_request" where
  "AdTokensAgent_trackClick_request self impressionId =
     \<lparr>request_url = baseUrl self @ ''/clicks/'' @ impressionId,
      http_method = ''POST'',
      headers = [(''x-api-key'', apiKey self)],
      body = None\<rparr>"

definition AdTokensAgent_trackClick ::
  "(http_request \<Rightarrow> fetch_result) \<Rightarrow> AdTokensAgent \<Rightarrow> string
     \<Rightarrow> console_entry list \<times> (js_error + unit)" where
  "AdTokensAgent_trackClick fetch self impressionId =
     (case fetch (AdTokensAgent_trackClick_request self impressionId) of
        Rejected msg \<Rightarrow> ([ConsoleWarn (''Warning: Failed to track click: '' @ msg)], Inr ())
      | Resolved response \<Rightarrow> ([], Inr ()))"

text \<open>The products of a search response, as the interface \<^verbatim>\<open>AdResponse\<close> types them.\<close>

record AdResponse =
  product_id :: string
  impression_id :: string
  title :: string
  description :: string
  url :: string
  price :: string
  merchant :: string
  brand :: string
  relevance_score :: rat
  relevance_explanation :: string
  disclosure_text :: "string option"

definition format_product :: "nat \<Rightarrow> AdResponse \<Rightarrow> string" where
  "format_product index product =
     show_nat (index + 1) @ ''. **'' @ title product @ ''**'' @ nl
     @ ''   - Price: '' @ price product @ nl
     @ ''   - Merchant: '' @ merchant product @ nl
     @ ''   - '' @ relevance_explanation product @ nl
     @ ''   - [View Product]('' @ url product @ '')'' @ nl @ nl"

text \<open>\<^verbatim>\<open>products.forEach((product, index) => ...)\<close>, appending to \<^verbatim>\<open>formatted\<close>.\<close>

fun format_each :: "nat \<Rightarrow> AdResponse list \<Rightarrow> string" where
  "format_each index [] = []"
| "format_each index (product # products) = format_product index product @ format_each (index + 1) products"

text \<open>\<open>None\<close> is a \<^verbatim>\<open>null\<close> (or undefined) product list.\<close>

definition formatProductsForAgent :: "AdResponse list option \<Rightarrow> string" where
  "formatProductsForAgent products =
     (case products of
        None \<Rightarrow> ''No products found.''
      | Some [] \<Rightarrow> ''No products found.''
      | Some (first # rest) \<Rightarrow>
          ''Here are some product recommendations:'' @ nl @ nl
          @ format_each 0 (first # rest)
          @ (if truthy_string (disclosure_text first) then nl @ the (disclosure_text first) @ nl else []))"

section \<open>Conversation sessions (the best-practices guide, class ConversationSession)\<close>

text \<open>
  Python's slice \<^verbatim>\<open>xs[i:]\<close>: a negative start counts from the end and is clamped
  to the start of the list, a start beyond the end gives the empty list.
\<close>

definition py_slice_from :: "int \<Rightarrow> 'a list \<Rightarrow> 'a list" where
  "py_slice_from i xs =
     (let n = int (length xs);
          j = (if i < 0 then max 0 (n + i) else min i n)
      in drop (nat j) xs)"

record ConversationSession =
  session_id :: string
  messages :: "(string \<times> string) list"

definition add_message :: "ConversationSession \<Rightarrow> string \<Rightarrow> string \<Rightarrow> ConversationSession" where
  "add_message self role content = self\<lparr>messages := messages self @ [(role, content)]\<rparr>"

text \<open>The turns that \<^verbatim>\<open>ConversationSession.search\<close> sends: \<^verbatim>\<open>self.messages[-10:]\<close>.\<close>

definition search_context :: "ConversationSession \<Rightarrow> (string \<times> string) list" where
  "search_context self = py_slice_from (- 10) (messages self)"

definition ConversationSession_search_request :: "ConversationSession \<Rightarrow> string \<Rightarrow> http_request" where
  "ConversationSession_search_request self query =
     \<lparr>request_url = ''https://api.ad-tokens.com/search'',
      http_method = ''POST'',
      headers = [(''x-api-key'', ''your-api-key-here'')],
      body = Some (JObj [(''query'', JStr query),
                         (''session_id'', JStr (session_id self)),
                         (''conversation_context'', JArr (map message_json (search_context self)))])\<rparr>"

text \<open>The session's search: the parsed body of whatever the service answers.\<close>

definition ConversationSession_search ::
  "(http_request \<Rightarrow> fetch_result) \<Rightarrow> ConversationSession \<Rightarrow> string \<Rightarrow> js_error + json" where
  "ConversationSession_search post self query =
     (case post (ConversationSession_search_request self query) of
        Rejected msg \<Rightarrow> Inl (FetchFailed msg)
      | Resolved r \<Rightarrow> (case json_body r of None \<Rightarrow> Inl JsonSyntaxError | Some v \<Rightarrow> Inr v))"

section \<open>Streaming search (examples/typescript/streaming-search.ts)\<close>

text \<open>
  A JavaScript string is modelled by its UTF-8 bytes. \<^verbatim>\<open>split('\\n')\<close> cuts at every
  newline and always returns at least one piece.
\<close>

fun prepend_char :: "'a \<Rightarrow> 'a list list \<Rightarrow> 'a list list" where
  "prepend_char c [] = [[c]]"
| "prepend_char c (l # ls) = (c # l) # ls"

fun split_on :: "'a \<Rightarrow> 'a list \<Rightarrow> 'a list list" where
  "split_on d [] = [[]]"
| "split_on d (c # cs) = (if c = d then [] # split_on d cs else prepend_char c (split_on d cs))"

text \<open>
  \<^verbatim>\<open>trim()\<close> removes white space and line terminators from both ends: the ASCII ones,
  U+00A0, U+1680, U+2000 to U+200A, U+2028, U+2029, U+202F, U+205F, U+3000 and U+FEFF,
  here in UTF-8.
\<close>

definition js_whitespace :: "string list" where
  "js_whitespace =
     [[CHR 0x09], [CHR 0x0A], [CHR 0x0B], [CHR 0x0C], [CHR 0x0D], [CHR 0x20],
      [CHR 0xC2, CHR 0xA0], [CHR 0xE1, CHR 0x9A, CHR 0x80],
      [CHR 0xE2, CHR 0x80, CHR 0x80], [CHR 0xE2, CHR 0x80, CHR 0x81], [CHR 0xE2, CHR 0x80, CHR 0x82],
      [CHR 0xE2, CHR 0x80, CHR 0x83], [CHR 0xE2, CHR 0x80, CHR 0x84], [CHR 0xE2, CHR 0x80, CHR 0x85],
      [CHR 0xE2, CHR 0x80, CHR 0x86], [CHR 0xE2, CHR 0x80, CHR 0x87], [CHR 0xE2, CHR 0x80, CHR 0x88],
      [CHR 0xE2, CHR 0x80, CHR 0x89], [CHR 0xE2, CHR 0x80, CHR 0x8A], [CHR 0xE2, CHR 0x80, CHR 0xA8],
      [CHR 0xE2, CHR 0x80, CHR 0xA9], [CHR 0xE2, CHR 0x80, CHR 0xAF], [CHR 0xE2, CHR 0x81, CHR 0x9F],
      [CHR 0xE3, CHR 0x80, CHR 0x80], [CHR 0xEF, CHR 0xBB, CHR 0xBF]]"

function strip_leading :: "string list \<Rightarrow> string \<Rightarrow> string" where
  "strip_leading ws s =
     (case find (\<lambda>w. w \<noteq> [] \<and> prefix w s) ws of
        None \<Rightarrow> s
      | Some w \<Rightarrow> strip_leading ws (drop (length w) s))"
  by pat_completeness auto
termination
proof (relation "measure (\<lambda>(ws, s). length s)")
  show "wf (measure (\<lambda>(ws, s). length s))" by simp
next
  fix ws :: "string list" and s w :: string
  assume "find (\<lambda>w. w \<noteq> [] \<and> prefix w s) ws = Some w"
  then have "w \<noteq> []" and "prefix w s"
    by (auto simp: find_Some_iff)
  then have "0 < length w" and "length w \<le> length s"
    by (auto simp: prefix_length_le)
  then have "length s - length w < length s"
    by arith
  then show "((ws, drop (length w) s), (ws, s)) \<in> measure (\<lambda>(ws, s). length s)"
    by simp
qed

declare strip_leading.simps [simp del]

definition trim :: "string \<Rightarrow> string" where
  "trim s = rev (strip_leading (map rev js_whitespace) (rev (strip_leading js_whitespace s)))"

text \<open>
  The value that \<^verbatim>\<open>JSON.parse\<close> returns. The interfaces \<^verbatim>\<open>StreamingProduct\<close> and
  \<^verbatim>\<open>StreamingData\<close> are erased when the program is compiled, so the value is whatever
  the text denotes. The numbers of the platform are a type parameter; the pairs of an
  object are its own properties.
\<close>

datatype 'n js_value =
    JSNull
  | JSBoolean bool
  | JSNumber 'n
  | JSString string
  | JSArray "'n js_value list"
  | JSObject "(string \<times> 'n js_value) list"

text \<open>
  What the platform computes is a parameter of the model: \<^verbatim>\<open>JSON.parse\<close> (\<open>Inl\<close> carries
  the message of the SyntaxError thrown for a text that is not JSON), whether a number
  is truthy, the rendering of a number in a template literal (digits, or the exponent
  form for a large or a small one), the rendering \<^verbatim>\<open>(x * 100).toFixed(2)\<close> of a value
  that may be undefined, and the messages of the TypeErrors thrown for a property read
  on \<^verbatim>\<open>null\<close> and for a loop over a value that is not iterable.
\<close>

record 'n runtime =
  JSON_parse :: "string \<Rightarrow> string + 'n js_value"
  number_truthy :: "'n \<Rightarrow> bool"
  number_toString :: "'n \<Rightarrow> string"
  percent_toFixed2 :: "'n js_value option \<Rightarrow> string"
  null_read_message :: "string \<Rightarrow> string"
  not_iterable_message :: "'n js_value \<Rightarrow> string"

text \<open>Truthiness of a value that may be undefined (\<open>None\<close>).\<close>

fun js_truthy :: "'n runtime \<Rightarrow> 'n js_value option \<Rightarrow> bool" where
  "js_truthy rt None = False"
| "js_truthy rt (Some JSNull) = False"
| "js_truthy rt (Some (JSBoolean b)) = b"
| "js_truthy rt (Some (JSNumber n)) = number_truthy rt n"
| "js_truthy rt (Some (JSString s)) = (s \<noteq> [])"
| "js_truthy rt (Some (JSArray vs)) = True"
| "js_truthy rt (Some (JSObject kvs)) = True"

text \<open>
  The property read \<^verbatim>\<open>v.name\<close>, for the names this program reads, which no built-in
  prototype defines: a TypeError on \<^verbatim>\<open>null\<close>, the own property of an object,
  \<^verbatim>\<open>undefined\<close> on everything else.
\<close>

definition js_get :: "'n runtime \<Rightarrow> 'n js_value \<Rightarrow> string \<Rightarrow> string + 'n js_value option" where
  "js_get rt v name =
     (case v of
        JSNull \<Rightarrow> Inl (null_read_message rt name)
      | JSObject kvs \<Rightarrow> Inr (map_of kvs name)
      | _ \<Rightarrow> Inr None)"

text \<open>\<^verbatim>\<open>v?.name\<close> on a value that may be undefined.\<close>

definition js_get_optional :: "'n js_value option \<Rightarrow> string \<Rightarrow> 'n js_value option" where
  "js_get_optional v name =
     (case v of
        Some (JSObject kvs) \<Rightarrow> map_of kvs name
      | _ \<Rightarrow> None)"

text \<open>\<^verbatim>\<open>xs.join(sep)\<close> on strings.\<close>

fun join_with :: "string \<Rightarrow> string list \<Rightarrow> string" where
  "join_with sep [] = []"
| "join_with sep [x] = x"
| "join_with sep (x # y # ys) = x @ sep @ join_with sep (y # ys)"

text \<open>
  The string a template literal puts for a value: an array is its elements joined by
  commas, with nothing for a \<^verbatim>\<open>null\<close> element.
\<close>

fun js_to_string :: "'n runtime \<Rightarrow> 'n js_value \<Rightarrow> string" where
  "js_to_string rt JSNull = ''null''"
| "js_to_string rt (JSBoolean b) = (if b then ''true'' else ''false'')"
| "js_to_string rt (JSNumber n) = number_toString rt n"
| "js_to_string rt (JSString s) = s"
| "js_to_string rt (JSArray vs) =
     join_with '','' (map (\<lambda>v. if v = JSNull then [] else js_to_string rt v) vs)"
| "js_to_string rt (JSObject kvs) = ''[object Object]''"

definition js_template :: "'n runtime \<Rightarrow> 'n js_value option \<Rightarrow> string" where
  "js_template rt v = (case v of None \<Rightarrow> ''undefined'' | Some x \<Rightarrow> js_to_string rt x)"

text \<open>
  The iteration of a string goes by code points: in UTF-8, a byte followed by its
  continuation bytes (\<^verbatim>\<open>10xxxxxx\<close>).
\<close>

definition continuation_byte :: "char \<Rightarrow> bool" where
  "continuation_byte c \<longleftrightarrow> 128 \<le> (of_char c :: nat) \<and> (of_char c :: nat) < 192"

function code_points :: "string \<Rightarrow> string list" where
  "code_points [] = []"
| "code_points (c # cs) = (c # takeWhile continuation_byte cs) # code_points (dropWhile continuation_byte cs)"
  by pat_completeness auto
termination
proof (relation "measure length")
  show "wf (measure length)" by simp
next
  fix c :: char and cs :: string
  have "length (dropWhile continuation_byte cs) \<le> length cs"
    by (rule length_dropWhile_le)
  then show "(dropWhile continuation_byte cs, c # cs) \<in> measure length"
    by simp
qed

text \<open>
  What \<^verbatim>\<open>for (const product of v)\<close> runs through: the elements of an array, the code
  points of a string; any other value is not iterable and the loop throws a TypeError.
\<close>

definition js_iterate :: "'n runtime \<Rightarrow> 'n js_value \<Rightarrow> string + 'n js_value list" where
  "js_iterate rt v =
     (case v of
        JSArray vs \<Rightarrow> Inr vs
      | JSString s \<Rightarrow> Inr (map JSString (code_points s))
      | _ \<Rightarrow> Inl (not_iterable_message rt v))"

text \<open>
  \<^verbatim>\<open>productsReceived++\<close> on a floating-point number that holds a count: exact up to
  \<open>2\<^sup>5\<^sup>3\<close>, where adding one changes nothing. A count in that range is rendered by
  its digits.
\<close>

definition js_increment :: "nat \<Rightarrow> nat" where
  "js_increment n = (if int n < 2 ^ 53 then n + 1 else n)"

text \<open>The pictographs of the log lines, in UTF-8.\<close>

definition check_mark :: string where
  "check_mark = [CHR 0xE2, CHR 0x9C, CHR 0x85]"

definition bar_chart :: string where
  "bar_chart = [CHR 0xF0, CHR 0x9F, CHR 0x93, CHR 0x8A]"

definition warning_sign :: string where
  "warning_sign = [CHR 0xE2, CHR 0x9A, CHR 0xA0, CHR 0xEF, CHR 0xB8, CHR 0x8F]"

definition sparkles :: string where
  "sparkles = [CHR 0xE2, CHR 0x9C, CHR 0xA8]"

definition cross_mark :: string where
  "cross_mark = [CHR 0xE2, CHR 0x9D, CHR 0x8C]"

definition magnifier :: string where
  "magnifier = [CHR 0xF0, CHR 0x9F, CHR 0x94, CHR 0x8D]"

definition antenna :: string where
  "antenna = [CHR 0xF0, CHR 0x9F, CHR 0x93, CHR 0xA1]"

text \<open>
  The state the reading loop carries besides the buffer: \<^verbatim>\<open>productsReceived\<close> and
  what was written to the console. A statement inside the \<^verbatim>\<open>try\<close> block returns, with
  the state it leaves, the message of the error it throws, if any: what was counted and
  written before the error stays. The body of \<^verbatim>\<open>for (const product of data.results)\<close>:
\<close>

definition report_product ::
  "'n runtime \<Rightarrow> 'n js_value \<Rightarrow> nat \<times> console_entry list \<Rightarrow> string option \<times> nat \<times> console_entry list" where
  "report_product rt product st =
     (case st of (productsReceived, console) \<Rightarrow>
        let received = js_increment productsReceived in
        case js_get rt product ''title'' of
          Inl message \<Rightarrow> (Some message, received, console)
        | Inr product_title \<Rightarrow>
            let console1 = console @
                  [ConsoleLog (check_mark @ '' Product '' @ show_nat received @ '': '' @ js_template rt product_title)]
            in case js_get rt product ''price'' of
                 Inl message \<Rightarrow> (Some message, received, console1)
               | Inr product_price \<Rightarrow>
                   let console2 = console1 @ [ConsoleLog (''   Price: '' @ js_template rt product_price)]
                   in case js_get rt product ''relevance_score'' of
                        Inl message \<Rightarrow> (Some message, received, console2)
                      | Inr score \<Rightarrow>
                          (None, received,
                           console2 @ [ConsoleLog (''   Relevance: '' @ percent_toFixed2 rt score @ ''%'' @ nl)]))"

text \<open>The loop over the products: it ends at the first error.\<close>

fun report_products ::
  "'n runtime \<Rightarrow> 'n js_value list \<Rightarrow> nat \<times> console_entry list \<Rightarrow> string option \<times> nat \<times> console_entry list" where
  "report_products rt [] st = (None, st)"
| "report_products rt (product # products) st =
     (case report_product rt product st of
        (Some message, st1) \<Rightarrow> (Some message, st1)
      | (None, st1) \<Rightarrow> report_products rt products st1)"

text \<open>The \<^verbatim>\<open>try\<close> block, for the text after \<^verbatim>\<open>data: \<close>.\<close>

definition handle_data ::
  "'n runtime \<Rightarrow> string \<Rightarrow> nat \<times> console_entry list \<Rightarrow> string option \<times> nat \<times> console_entry list" where
  "handle_data rt text st =
     (case JSON_parse rt text of
        Inl message \<Rightarrow> (Some message, st)
      | Inr data \<Rightarrow>
          (case js_get rt data ''results'' of
             Inl message \<Rightarrow> (Some message, st)
           | Inr results \<Rightarrow>
               (case (if js_truthy rt results
                      then (case js_iterate rt (the results) of
                              Inl message \<Rightarrow> (Some message, st)
                            | Inr products \<Rightarrow> report_products rt products st)
                      else (None, st)) of
                  (Some message, st1) \<Rightarrow> (Some message, st1)
                | (None, st1) \<Rightarrow>
                    (case js_get rt data ''metadata'' of
                       Inl message \<Rightarrow> (Some message, st1)
                     | Inr metadata \<Rightarrow>
                         if js_truthy rt (js_get_optional metadata ''total_matches'')
                         then (None, fst st1,
                               snd st1 @ [ConsoleLog (bar_chart @ '' Total matches: ''
                                            @ js_template rt (js_get_optional metadata ''total_matches''))])
                         else (None, st1)))))"

text \<open>
  The body of \<^verbatim>\<open>for (const line of lines)\<close>. Every error the \<^verbatim>\<open>try\<close> block throws is
  an \<^verbatim>\<open>Error\<close>, so the handler writes both warnings.
\<close>

definition process_line :: "'n runtime \<Rightarrow> string \<Rightarrow> nat \<times> console_entry list \<Rightarrow> nat \<times> console_entry list" where
  "process_line rt line st =
     (let trimmed = trim line in
      if trimmed = [] then st
      else if prefix ''event: '' trimmed then st
      else if prefix ''data: '' trimmed then
        (case handle_data rt (drop 6 trimmed) st of
           (None, st1) \<Rightarrow> st1
         | (Some message, st1) \<Rightarrow>
             (fst st1,
              snd st1 @
              [ConsoleWarn (warning_sign @ ''  Failed to parse JSON: '' @ message),
               ConsoleWarn (''   Line: '' @ trimmed)]))
      else st)"

text \<open>
  The decoder \<^verbatim>\<open>new TextDecoder()\<close> used with \<^verbatim>\<open>{stream: true}\<close> is a parameter: a step
  function from the decoder's state and a chunk of bytes to the new state and the text
  decoded so far. Its contract is that cutting the bytes into chunks changes neither the
  text nor the state.
\<close>

definition streaming_decoder :: "('d \<Rightarrow> string \<Rightarrow> 'd \<times> string) \<Rightarrow> bool" where
  "streaming_decoder decode \<longleftrightarrow>
     (\<forall>d. decode d [] = (d, [])) \<and>
     (\<forall>d a b. decode d (a @ b) =
        (case decode d a of (d1, x) \<Rightarrow> case decode d1 b of (d2, y) \<Rightarrow> (d2, x @ y)))"

record 'd reader_state =
  decoder_state :: 'd
  buffer :: string
  progress :: "nat \<times> console_entry list"

text \<open>
  One round of \<^verbatim>\<open>while (true)\<close> for a chunk that was read: decode, append to the
  buffer, split, keep the last piece (\<^verbatim>\<open>lines.pop() || ''\<close>), handle the others.
\<close>

definition process_chunk ::
  "('d \<Rightarrow> string \<Rightarrow> 'd \<times> string) \<Rightarrow> 'n runtime \<Rightarrow> string \<Rightarrow> 'd reader_state \<Rightarrow> 'd reader_state" where
  "process_chunk decode rt chunk st =
     (case decode (decoder_state st) chunk of
        (d, text) \<Rightarrow>
          (case rev (split_on (CHR 0x0A) (buffer st @ text)) of
             [] \<Rightarrow> \<lparr>decoder_state = d, buffer = [], progress = progress st\<rparr>
           | kept # others \<Rightarrow>
               \<lparr>decoder_state = d, buffer = kept,
                progress = fold (process_line rt) (rev others) (progress st)\<rparr>))"

definition read_loop ::
  "('d \<Rightarrow> string \<Rightarrow> 'd \<times> string) \<Rightarrow> 'd \<Rightarrow> 'n runtime \<Rightarrow> string list \<Rightarrow> 'd reader_state" where
  "read_loop decode d0 rt chunks =
     fold (process_chunk decode rt) chunks \<lparr>decoder_state = d0, buffer = [], progress = (0, [])\<rparr>"

text \<open>
  The response of a streaming search: the body is \<^verbatim>\<open>null\<close> or a stream, given by
  the chunks its reader delivers before it is done.
\<close>

record stream_response = http_response +
  stream_body :: "string list option"

datatype stream_fetch_result = StreamRejected string | StreamResolved stream_response

definition streamSearch_request :: "string \<Rightarrow> string \<Rightarrow> http_request" where
  "streamSearch_request query key =
     \<lparr>request_url = ''https://api.ad-tokens.com/search'',
      http_method = ''POST'',
      headers = [(''x-api-key'', key), (''Content-Type'', ''application/json'')],
      body = Some (JObj [(''query'', JStr query), (''limit'', JNum 5), (''stream'', JBool True)])\<rparr>"

text \<open>
  \<^verbatim>\<open>streamSearch\<close> returns nothing and throws nothing: every error is caught and
  written to the console with the error's message. The result is the final
  \<^verbatim>\<open>productsReceived\<close> (when the stream was read) and the console. The reader delivers
  the chunks of the body and is then done.
\<close>

definition streamSearch_try ::
  "('d \<Rightarrow> string \<Rightarrow> 'd \<times> string) \<Rightarrow> 'd \<Rightarrow> 'n runtime \<Rightarrow> (http_request \<Rightarrow> stream_fetch_result)
     \<Rightarrow> string \<Rightarrow> string \<Rightarrow> js_error + nat \<times> console_entry list" where
  "streamSearch_try decode d0 rt fetch query key =
     (case fetch (streamSearch_request query key) of
        StreamRejected msg \<Rightarrow> Inl (FetchFailed msg)
      | StreamResolved response \<Rightarrow>
          if \<not> ok response then
            (case json_body response of
               None \<Rightarrow> Inl JsonSyntaxError
             | Some error \<Rightarrow>
                 (case get_prop error ''message'' of
                    Inl e \<Rightarrow> Inl e
                  | Inr m \<Rightarrow> Inl (HttpStatusMessage (status response) m)))
          else
            (case stream_body response of
               None \<Rightarrow> Inl ResponseBodyIsNull
             | Some chunks \<Rightarrow>
                 (case progress (read_loop decode d0 rt chunks) of
                    (productsReceived, console) \<Rightarrow>
                      Inr (productsReceived,
                           [ConsoleLog (magnifier @ '' Streaming search for: '' @ query @ nl),
                            ConsoleLog (antenna @ '' Waiting for results...'' @ nl)]
                           @ console
                           @ [ConsoleLog (nl @ sparkles @ '' Received '' @ show_nat productsReceived
                                          @ '' products via streaming'')]))))"

definition streamSearch ::
  "('d \<Rightarrow> string \<Rightarrow> 'd \<times> string) \<Rightarrow> 'd \<Rightarrow> 'n runtime \<Rightarrow> (http_request \<Rightarrow> stream_fetch_result)
     \<Rightarrow> string \<Rightarrow> string \<Rightarrow> nat option \<times> console_entry list" where
  "streamSearch decode d0 rt fetch query key =
     (case streamSearch_try decode d0 rt fetch query key of
        Inl e \<Rightarrow> (None, [ConsoleError (cross_mark @ '' Error: '') (Some e)])
      | Inr (productsReceived, console) \<Rightarrow> (Some productsReceived, console))"

section \<open>The service, modelled from the spec\<close>

text \<open>
  The repository holds the documentation and the client examples of the service; the
  code of the service itself (rate limiter, matching pipeline, attribution) is not part
  of it. The definitions of this section follow the words of the spec. Times and scores
  are rational numbers.
\<close>

subsection \<open>Rate limiter\<close>

record RateLimitBucket =
  caller_key :: string
  tokens :: rat
  last_refill :: rat
  capacity :: rat
  refill_rate :: rat

datatype rate_decision = Admit | RateLimitExceeded rat

text \<open>
  Modelled from the spec: the rate limiter of section 4.7, whose code is missing.
  "Refill tokens owed since last check": the time since the last refill times the refill
  rate is added, up to the capacity.
\<close>

definition refill :: "RateLimitBucket \<Rightarrow> rat \<Rightarrow> RateLimitBucket" where
  "refill b now =
     b\<lparr>tokens := min (capacity b) (tokens b + (now - last_refill b) * refill_rate b),
       last_refill := now\<rparr>"

text \<open>
  Modelled from the spec: "then if tokens \<ge> 1, decrement and admit; else reject with
  RateLimitExceeded and compute reset time = time until next token is available".
\<close>

definition handle_request :: "RateLimitBucket \<Rightarrow> rat \<Rightarrow> rate_decision \<times> RateLimitBucket" where
  "handle_request b now =
     (let b1 = refill b now in
      if 1 \<le> tokens b1 then (Admit, b1\<lparr>tokens := tokens b1 - 1\<rparr>)
      else (RateLimitExceeded ((1 - tokens b1) / refill_rate b1), b1))"

text \<open>
  Modelled from the spec: the requests of one caller ("on each request"), by their
  times; the result lists the decision and the bucket after each.
\<close>

fun handle_requests :: "RateLimitBucket \<Rightarrow> rat list \<Rightarrow> (rate_decision \<times> RateLimitBucket) list" where
  "handle_requests b [] = []"
| "handle_requests b (now # later) =
     handle_request b now # handle_requests (snd (handle_request b now)) later"

subsection \<open>Impressions and click recording\<close>

record Impression =
  impression_id :: string
  request_id :: string
  product_id :: string
  session_id :: "string option"
  created_at :: nat
  click_timestamp :: "nat option"
  conversion_value :: "rat option"




subsection \<open>The matching pipeline\<close>

datatype SortMode = Relevance | PriceAsc | PriceDesc

record Filters =
  min_price :: "rat option"
  max_price :: "rat option"
  merchant :: "string option"
  brand :: "string option"
  category :: "string option"
  keyword_filter :: "string option"

text \<open>The request payload of \<^verbatim>\<open>POST /search\<close>; an absent optional field is \<open>None\<close>.\<close>

record SearchRequest =
  query :: string
  limit :: "int option"
  filters :: "Filters option"
  sort :: "SortMode option"
  min_relevance_score :: "rat option"
  session_id :: "string option"
  conversation_context :: "(string \<times> string) list"
  exclude_product_ids :: "string list"

record QueryDescriptor =
  query_text :: string
  context_turns :: "(string \<times> string) list"
  structured_filters :: "Filters option"
  sort_mode :: SortMode
  result_limit :: nat
  threshold :: rat
  exclusion_set :: "string list"
  caller_session :: "string option"

datatype search_error = InvalidInput

text \<open>
  Modelled from the spec: the query normalizer of section 4.1, whose code is missing. It
  "validates/clamps request parameters (limit, min score, sort mode)" (section 2):
  "clamps limit to [1,10] (reject only if non-numeric or negative); defaults sort to
  relevance, min-relevance-threshold to 0.5. Truncates context to the last 10 turns,
  preserving order. Fails with InvalidInput if query text is empty or limit is
  non-numeric." A limit is an integer here, so none is non-numeric; the limit of a
  request that gives none is 3, the default of the search guide. The limit of the
  payload is an \<^verbatim>\<open>int[1..10]\<close> (section 6), section 7 lists an out-of-range limit under
  InvalidInput, and the guide of the service answers 400 to a limit that is not between
  1 and 10: the normalizer rejects a limit outside 1 to 10, so that it accepts no
  request that one of these passages rejects. The limit of the descriptor is the
  clamped one, which for a limit that is accepted is the limit itself. The minimum
  score is validated against the range of the relevance scores, "relevance scores
  \<open>\<in>\<close> [0,1]" (the range 0.0 to 1.0 that the search guide gives for
  \<^verbatim>\<open>min_relevance_score\<close>).
\<close>

definition clamp_limit :: "int \<Rightarrow> nat" where
  "clamp_limit l = nat (max 1 (min 10 l))"

text \<open>Modelled from the spec: the limit a request asks for, 3 when it gives none.\<close>

definition requested_limit :: "SearchRequest \<Rightarrow> int" where
  "requested_limit r = (case limit r of None \<Rightarrow> 3 | Some l \<Rightarrow> l)"

text \<open>Modelled from the spec: the minimum relevance threshold of a request, 0.5 by default.\<close>

definition requested_threshold :: "SearchRequest \<Rightarrow> rat" where
  "requested_threshold r = (case min_relevance_score r of None \<Rightarrow> 1 / 2 | Some t \<Rightarrow> t)"

text \<open>
  Modelled from the spec: the normalizer itself, which validates, clamps and produces
  the canonical descriptor.
\<close>

definition normalize :: "SearchRequest \<Rightarrow> search_error + QueryDescriptor" where
  "normalize r =
     (if query r = [] then Inl InvalidInput
      else if requested_limit r < 1 \<or> 10 < requested_limit r then Inl InvalidInput
      else if requested_threshold r < 0 \<or> 1 < requested_threshold r then Inl InvalidInput
      else Inr \<lparr>query_text = query r,
                context_turns = drop (length (conversation_context r) - 10) (conversation_context r),
                structured_filters = filters r,
                sort_mode = (case sort r of None \<Rightarrow> Relevance | Some m \<Rightarrow> m),
                result_limit = clamp_limit (requested_limit r),
                threshold = requested_threshold r,
                exclusion_set = exclude_product_ids r,
                caller_session = SearchRequest.session_id r\<rparr>)"

text \<open>
  Modelled from the spec: a valid request is a payload of section 6 within the
  documented ranges: the query is not empty, the limit, if there is one, is between 1
  and 10, and the minimum relevance score, if there is one, is between 0 and 1.
\<close>

definition valid_request :: "SearchRequest \<Rightarrow> bool" where
  "valid_request r \<longleftrightarrow>
     query r \<noteq> []
     \<and> (case limit r of None \<Rightarrow> True | Some l \<Rightarrow> 1 \<le> l \<and> l \<le> 10)
     \<and> (case min_relevance_score r of None \<Rightarrow> True | Some t \<Rightarrow> 0 \<le> t \<and> t \<le> 1)"

record ProductRecord =
  product_id :: string
  title :: string
  description :: string
  price :: rat
  currency :: string
  merchant :: string
  brand :: string
  category :: string
  url :: string
  last_updated :: nat
  disclosure_text :: "string option"

record ScoredCandidate =
  product :: ProductRecord
  raw_similarity :: rat
  relevance_score :: rat

text \<open>
  What the spec leaves to configuration is a parameter: the composite relevance score of
  a product with a raw similarity ("weights are a fixed configuration"), and the test
  for a keyword.
\<close>

record ranking_config =
  composite_score :: "ProductRecord \<Rightarrow> rat \<Rightarrow> rat"
  keyword_matches :: "string \<Rightarrow> ProductRecord \<Rightarrow> bool"

text \<open>
  Modelled from the spec: the filter and rank stage of section 4.4, whose code is
  missing. Filters are "a conjunction (all supplied filters must match)".
\<close>

definition matches_filters :: "ranking_config \<Rightarrow> Filters option \<Rightarrow> ProductRecord \<Rightarrow> bool" where
  "matches_filters cfg fo p =
     (case fo of
        None \<Rightarrow> True
      | Some f \<Rightarrow>
          (case min_price f of None \<Rightarrow> True | Some m \<Rightarrow> m \<le> price p) \<and>
          (case max_price f of None \<Rightarrow> True | Some m \<Rightarrow> price p \<le> m) \<and>
          (case Filters.merchant f of None \<Rightarrow> True | Some m \<Rightarrow> ProductRecord.merchant p = m) \<and>
          (case Filters.brand f of None \<Rightarrow> True | Some b \<Rightarrow> ProductRecord.brand p = b) \<and>
          (case Filters.category f of None \<Rightarrow> True | Some c \<Rightarrow> ProductRecord.category p = c) \<and>
          (case keyword_filter f of None \<Rightarrow> True | Some k \<Rightarrow> keyword_matches cfg k p))"

text \<open>
  Modelled from the spec: a candidate that passed the filters is scored; the composite
  relevance score comes from the configuration.
\<close>

definition score_candidate :: "ranking_config \<Rightarrow> ProductRecord \<times> rat \<Rightarrow> ScoredCandidate" where
  "score_candidate cfg pr =
     \<lparr>product = fst pr, raw_similarity = snd pr, relevance_score = composite_score cfg (fst pr) (snd pr)\<rparr>"

text \<open>
  Modelled from the spec: "by relevance descending for relevance sort; price
  ascending/descending for price sorts, with relevance as the tie-break, and product
  identifier as the final deterministic tie-break".
\<close>

definition by_relevance :: "ScoredCandidate \<Rightarrow> ScoredCandidate \<Rightarrow> bool" where
  "by_relevance a b \<longleftrightarrow>
     relevance_score b < relevance_score a \<or>
     (relevance_score a = relevance_score b \<and> product_id (product a) \<le> product_id (product b))"

text \<open>Modelled from the spec: the order of two candidates under a sort mode.\<close>

fun ranks_before :: "SortMode \<Rightarrow> ScoredCandidate \<Rightarrow> ScoredCandidate \<Rightarrow> bool" where
  "ranks_before Relevance a b = by_relevance a b"
| "ranks_before PriceAsc a b =
     (price (product a) < price (product b) \<or> (price (product a) = price (product b) \<and> by_relevance a b))"
| "ranks_before PriceDesc a b =
     (price (product b) < price (product a) \<or> (price (product a) = price (product b) \<and> by_relevance a b))"

text \<open>Modelled from the spec: sorting by that order, by insertion.\<close>

fun insert_ranked :: "SortMode \<Rightarrow> ScoredCandidate \<Rightarrow> ScoredCandidate list \<Rightarrow> ScoredCandidate list" where
  "insert_ranked m c [] = [c]"
| "insert_ranked m c (d # ds) = (if ranks_before m c d then c # d # ds else d # insert_ranked m c ds)"

fun rank :: "SortMode \<Rightarrow> ScoredCandidate list \<Rightarrow> ScoredCandidate list" where
  "rank m [] = []"
| "rank m (c # cs) = insert_ranked m c (rank m cs)"

text \<open>
  Modelled from the spec: the stage as a whole. "A candidate failing any filter is
  dropped, not scored", "candidates below the caller's minimum relevance threshold are
  dropped", the rest is ordered and the stage "truncates to limit".
\<close>

definition filter_and_rank ::
  "ranking_config \<Rightarrow> QueryDescriptor \<Rightarrow> (ProductRecord \<times> rat) list \<Rightarrow> ScoredCandidate list" where
  "filter_and_rank cfg d retrieved =
     take (result_limit d)
       (rank (sort_mode d)
          (filter (\<lambda>c. threshold d \<le> relevance_score c)
             (map (score_candidate cfg)
                (filter (\<lambda>pr. matches_filters cfg (structured_filters d) (fst pr)) retrieved))))"

text \<open>
  Modelled from the spec: the deduplication stage of section 4.5, whose code is missing.
  It "removes candidates whose product identifier is in the caller's exclusion set, and
  collapses duplicate product identifiers ..., keeping the highest-scored occurrence".
\<close>

fun collapse_duplicates :: "ScoredCandidate list \<Rightarrow> ScoredCandidate list" where
  "collapse_duplicates [] = []"
| "collapse_duplicates (c # cs) =
     (if \<exists>d \<in> set cs. product_id (product d) = product_id (product c)
                        \<and> relevance_score c < relevance_score d
      then collapse_duplicates cs
      else c # collapse_duplicates (filter (\<lambda>d. product_id (product d) \<noteq> product_id (product c)) cs))"

text \<open>Modelled from the spec: the stage as a whole, exclusion first.\<close>

definition deduplicate :: "QueryDescriptor \<Rightarrow> ScoredCandidate list \<Rightarrow> ScoredCandidate list" where
  "deduplicate d cs =
     collapse_duplicates (filter (\<lambda>c. product_id (product c) \<notin> set (exclusion_set d)) cs)"

text \<open>
  Modelled from the spec: the attribution stamper of section 4.6 "creates one Impression
  with a freshly generated unique identifier" for every surviving candidate. The
  identifiers are drawn from a counter.
\<close>

record SearchResult =
  candidate :: ScoredCandidate
  result_impression_id :: string

record attribution_state =
  impressions :: "string \<rightharpoonup> Impression"
  next_impression :: nat

text \<open>Modelled from the spec: the identifier minted for the \<open>n\<close>-th impression.\<close>

definition mint_id :: "nat \<Rightarrow> string" where
  "mint_id n = ''imp-'' @ show_nat n"

text \<open>Modelled from the spec: one impression per candidate, in order.\<close>

fun stamp ::
  "string \<Rightarrow> string option \<Rightarrow> nat \<Rightarrow> ScoredCandidate list \<Rightarrow> attribution_state
     \<Rightarrow> SearchResult list \<times> attribution_state" where
  "stamp rid sess now [] st = ([], st)"
| "stamp rid sess now (c # cs) st =
     (let iid = mint_id (next_impression st);
          imp = \<lparr>impression_id = iid, request_id = rid, Impression.product_id = product_id (product c),
                 session_id = sess, created_at = now, click_timestamp = None, conversion_value = None\<rparr>;
          st1 = \<lparr>impressions = (impressions st)(iid \<mapsto> imp), next_impression = next_impression st + 1\<rparr>
      in case stamp rid sess now cs st1 of
           (rs, st2) \<Rightarrow> (\<lparr>candidate = c, result_impression_id = iid\<rparr> # rs, st2))"

text \<open>
  Modelled from the spec: the control flow of section 2 on a cache miss, from the
  normalizer to the stamper; the candidates retrieved for the query are given.
\<close>

definition search ::
  "ranking_config \<Rightarrow> (ProductRecord \<times> rat) list \<Rightarrow> string \<Rightarrow> nat \<Rightarrow> SearchRequest \<Rightarrow> attribution_state
     \<Rightarrow> search_error + SearchResult list \<times> attribution_state" where
  "search cfg retrieved rid now r st =
     (case normalize r of
        Inl e \<Rightarrow> Inl e
      | Inr d \<Rightarrow> Inr (stamp rid (caller_session d) now (deduplicate d (filter_and_rank cfg d retrieved)) st))"

section \<open>Conversation context: the last ten turns\<close>

lemma py_slice_from_neg: "0 < k \<Longrightarrow> py_slice_from (- int k) xs = drop (length xs - k) xs"
proof -
  assume k: "0 < k"
  have "nat (max 0 (int (length xs) - int k)) = length xs - k"
    by arith
  with k show ?thesis by (simp add: py_slice_from_def Let_def)
qed

lemma search_context_drop: "search_context self = drop (length (messages self) - 10) (messages self)"
  using py_slice_from_neg [of 10 "messages self"] by (simp add: search_context_def)

text \<open>
  C4. For a history of \<open>n\<close> messages the context sent with a search has exactly
  \<open>min n 10\<close> turns: the oldest \<open>n - 10\<close> turns are dropped, and the turns kept are the
  most recent ones in their original order (the history is the dropped turns followed
  by the context). The request that \<^verbatim>\<open>search\<close> posts carries exactly these turns: a
  service that answers with the body it was sent makes \<^verbatim>\<open>search\<close> return the query,
  the session id and these turns, \<^verbatim>\<open>search\<close> posts nothing else (what the client
  answers to any other request changes nothing), and it returns the parsed body of the
  answer to that request.
\<close>

theorem search_context_last_ten:
  "length (search_context self) = min (length (messages self)) 10
   \<and> messages self = take (length (messages self) - 10) (messages self) @ search_context self
   \<and> suffix (search_context self) (messages self)
   \<and> map_of (case body (ConversationSession_search_request self q) of Some (JObj fs) \<Rightarrow> fs | _ \<Rightarrow> [])
        ''conversation_context'' = Some (JArr (map message_json (search_context self)))
   \<and> ConversationSession_search (\<lambda>req. Resolved \<lparr>ok = True, status = 200, json_body = body req\<rparr>) self q
       = Inr (JObj [(''query'', JStr q),
                    (''session_id'', JStr (ConversationSession.session_id self)),
                    (''conversation_context'', JArr (map message_json (search_context self)))])
   \<and> ConversationSession_search post self q
       = ConversationSession_search
           (\<lambda>req. if req = ConversationSession_search_request self q then post req else Rejected ''not sent'')
           self q
   \<and> (post (ConversationSession_search_request self q) = Resolved response \<and> json_body response = Some v
        \<longrightarrow> ConversationSession_search post self q = Inr v)"
proof -
  have l: "length (search_context self) = min (length (messages self)) 10"
    by (simp add: search_context_drop)
  have a: "messages self = take (length (messages self) - 10) (messages self) @ search_context self"
    by (simp add: search_context_drop)
  have s: "suffix (search_context self) (messages self)"
    by (simp add: search_context_drop suffix_drop)
  have b: "map_of (case body (ConversationSession_search_request self q) of Some (JObj fs) \<Rightarrow> fs | _ \<Rightarrow> [])
        ''conversation_context'' = Some (JArr (map message_json (search_context self)))"
    by (simp add: ConversationSession_search_request_def)
  have e: "ConversationSession_search (\<lambda>req. Resolved \<lparr>ok = True, status = 200, json_body = body req\<rparr>) self q
       = Inr (JObj [(''query'', JStr q),
                    (''session_id'', JStr (ConversationSession.session_id self)),
                    (''conversation_context'', JArr (map message_json (search_context self)))])"
    by (simp add: ConversationSession_search_def ConversationSession_search_request_def)
  have o: "ConversationSession_search post self q
       = ConversationSession_search
           (\<lambda>req. if req = ConversationSession_search_request self q then post req else Rejected ''not sent'')
           self q"
    by (simp add: ConversationSession_search_def)
  have r: "post (ConversationSession_search_request self q) = Resolved response \<and> json_body response = Some v
        \<longrightarrow> ConversationSession_search post self q = Inr v"
    by (simp add: ConversationSession_search_def)
  from l a s b e o r show ?thesis by (intro conjI)
qed

text \<open>
  A history of twelve messages: the first two are dropped, and the service that
  answers with what it was sent returns the last ten.
\<close>

theorem search_context_last_ten_witness:
  "length (search_context \<lparr>ConversationSession.session_id = ''s'',
      messages = [(''user'', ''1''), (''assistant'', ''2''), (''user'', ''3''), (''assistant'', ''4''),
                  (''user'', ''5''), (''assistant'', ''6''), (''user'', ''7''), (''assistant'', ''8''),
                  (''user'', ''9''), (''assistant'', ''10''), (''user'', ''11''), (''assistant'', ''12'')]\<rparr>) = 10
   \<and> [(''user'', ''1''), (''assistant'', ''2''), (''user'', ''3''), (''assistant'', ''4''),
                  (''user'', ''5''), (''assistant'', ''6''), (''user'', ''7''), (''assistant'', ''8''),
                  (''user'', ''9''), (''assistant'', ''10''), (''user'', ''11''), (''assistant'', ''12'')]
     = [(''user'', ''1''), (''assistant'', ''2'')]
       @ search_context \<lparr>ConversationSession.session_id = ''s'',
      messages = [(''user'', ''1''), (''assistant'', ''2''), (''user'', ''3''), (''assistant'', ''4''),
                  (''user'', ''5''), (''assistant'', ''6''), (''user'', ''7''), (''assistant'', ''8''),
                  (''user'', ''9''), (''assistant'', ''10''), (''user'', ''11''), (''assistant'', ''12'')]\<rparr>
   \<and> ConversationSession_search (\<lambda>req. Resolved \<lparr>ok = True, status = 200, json_body = body req\<rparr>)
        \<lparr>ConversationSession.session_id = ''s'',
      messages = [(''user'', ''1''), (''assistant'', ''2''), (''user'', ''3''), (''assistant'', ''4''),
                  (''user'', ''5''), (''assistant'', ''6''), (''user'', ''7''), (''assistant'', ''8''),
                  (''user'', ''9''), (''assistant'', ''10''), (''user'', ''11''), (''assistant'', ''12'')]\<rparr> ''headphones''
     = Inr (JObj [(''query'', JStr ''headphones''), (''session_id'', JStr ''s''),
                  (''conversation_context'', JArr (map message_json [(''user'', ''3''), (''assistant'', ''4''),
                  (''user'', ''5''), (''assistant'', ''6''), (''user'', ''7''), (''assistant'', ''8''),
                  (''user'', ''9''), (''assistant'', ''10''), (''user'', ''11''), (''assistant'', ''12'')]))])"
proof -
  let ?self = "\<lparr>ConversationSession.session_id = ''s'',
      messages = [(''user'', ''1''), (''assistant'', ''2''), (''user'', ''3''), (''assistant'', ''4''),
                  (''user'', ''5''), (''assistant'', ''6''), (''user'', ''7''), (''assistant'', ''8''),
                  (''user'', ''9''), (''assistant'', ''10''), (''user'', ''11''), (''assistant'', ''12'')]\<rparr>"
  let ?echo = "\<lambda>req. Resolved \<lparr>ok = True, status = 200, json_body = body req\<rparr>"
  note inst = search_context_last_ten [of ?self "''headphones''" ?echo]
  from inst have len: "length (search_context ?self) = 10"
    by simp
  from inst have app: "[(''user'', ''1''), (''assistant'', ''2''), (''user'', ''3''), (''assistant'', ''4''),
                  (''user'', ''5''), (''assistant'', ''6''), (''user'', ''7''), (''assistant'', ''8''),
                  (''user'', ''9''), (''assistant'', ''10''), (''user'', ''11''), (''assistant'', ''12'')]
     = [(''user'', ''1''), (''assistant'', ''2'')] @ search_context ?self"
    by simp
  then have ctx: "search_context ?self = [(''user'', ''3''), (''assistant'', ''4''),
                  (''user'', ''5''), (''assistant'', ''6''), (''user'', ''7''), (''assistant'', ''8''),
                  (''user'', ''9''), (''assistant'', ''10''), (''user'', ''11''), (''assistant'', ''12'')]"
    by simp
  from inst have "ConversationSession_search ?echo ?self ''headphones''
     = Inr (JObj [(''query'', JStr ''headphones''), (''session_id'', JStr ''s''),
                  (''conversation_context'', JArr (map message_json (search_context ?self)))])"
    by simp
  then have echo: "ConversationSession_search ?echo ?self ''headphones''
     = Inr (JObj [(''query'', JStr ''headphones''), (''session_id'', JStr ''s''),
                  (''conversation_context'', JArr (map message_json [(''user'', ''3''), (''assistant'', ''4''),
                  (''user'', ''5''), (''assistant'', ''6''), (''user'', ''7''), (''assistant'', ''8''),
                  (''user'', ''9''), (''assistant'', ''10''), (''user'', ''11''), (''assistant'', ''12'')]))])"
    unfolding ctx .
  from len app echo show ?thesis by (intro conjI)
qed

section \<open>Batch search sends the queries in order\<close>

text \<open>
  C5. For a list of \<open>n\<close> queries, \<^verbatim>\<open>batchSearch\<close> posts to \<^verbatim>\<open>/search/batch\<close> a body
  whose \<^verbatim>\<open>queries\<close> field lists exactly \<open>n\<close> objects in the order of the input, the
  \<open>i\<close>-th being \<^verbatim>\<open>{query: queries[i], limit: 3}\<close>. The batch endpoint answers with the
  results of the queries in the same order, the \<open>i\<close>-th result being that of the
  \<open>i\<close>-th query, and \<^verbatim>\<open>batchSearch\<close> returns the parsed body of an ok response as it
  is.
\<close>

theorem batchSearch_sends_queries_in_order:
  "request_url (batchSearch_request queries key) = ''https://api.ad-tokens.com/search/batch''
   \<and> http_method (batchSearch_request queries key) = ''POST''
   \<and> body (batchSearch_request queries key) = Some (JObj [(''queries'', JArr (map batch_query queries))])
   \<and> length (map batch_query queries) = length queries
   \<and> (\<forall>i < length queries.
         map batch_query queries ! i = JObj [(''query'', JStr (queries ! i)), (''limit'', JNum 3)])
   \<and> batchSearch (search_batch_endpoint search_one timing) queries key
        = ([], Inr (JObj [(''results'', JArr (map search_one (map batch_query queries))), (''metadata'', timing)]))
   \<and> (\<forall>i < length queries.
         map search_one (map batch_query queries) ! i
           = search_one (JObj [(''query'', JStr (queries ! i)), (''limit'', JNum 3)]))
   \<and> (fetch (batchSearch_request queries key) = Resolved response \<and> ok response
         \<and> json_body response = Some v
        \<longrightarrow> batchSearch fetch queries key = ([], Inr v))"
proof -
  have req: "body (batchSearch_request queries key) = Some (JObj [(''queries'', JArr (map batch_query queries))])"
    by (simp add: batchSearch_request_def)
  have nth: "\<forall>i < length queries.
         map batch_query queries ! i = JObj [(''query'', JStr (queries ! i)), (''limit'', JNum 3)]"
    by (simp add: batch_query_def)
  have srv: "batchSearch (search_batch_endpoint search_one timing) queries key
        = ([], Inr (JObj [(''results'', JArr (map search_one (map batch_query queries))), (''metadata'', timing)]))"
    by (simp add: batchSearch_def search_batch_endpoint_def batchSearch_request_def
        json_or_throw_def log_and_rethrow_def)
  have nth2: "\<forall>i < length queries.
         map search_one (map batch_query queries) ! i
           = search_one (JObj [(''query'', JStr (queries ! i)), (''limit'', JNum 3)])"
    by (simp add: batch_query_def)
  have any: "fetch (batchSearch_request queries key) = Resolved response \<and> ok response
         \<and> json_body response = Some v
        \<longrightarrow> batchSearch fetch queries key = ([], Inr v)"
    by (simp add: batchSearch_def json_or_throw_def log_and_rethrow_def)
  show ?thesis
    using req nth srv nth2 any by (simp add: batchSearch_request_def)
qed

text \<open>The three queries of the example.\<close>

theorem batchSearch_sends_queries_in_order_witness:
  "map batch_query [''wireless headphones'', ''mechanical keyboard'', ''gaming mouse''] ! 1
     = JObj [(''query'', JStr ''mechanical keyboard''), (''limit'', JNum 3)]
   \<and> map (\<lambda>q. JArr [q]) (map batch_query [''wireless headphones'', ''mechanical keyboard'', ''gaming mouse'']) ! 2
     = JArr [JObj [(''query'', JStr ''gaming mouse''), (''limit'', JNum 3)]]
   \<and> batchSearch (\<lambda>req. Resolved \<lparr>ok = True, status = 200, json_body = Some (JArr [])\<rparr>)
        [''wireless headphones'', ''mechanical keyboard'', ''gaming mouse''] ''key'' = ([], Inr (JArr []))"
  using batchSearch_sends_queries_in_order
    [of "[''wireless headphones'', ''mechanical keyboard'', ''gaming mouse'']" "''key''"
        "\<lambda>q. JArr [q]" JNull
        "\<lambda>req. Resolved \<lparr>ok = True, status = 200, json_body = Some (JArr [])\<rparr>"
        "\<lparr>ok = True, status = 200, json_body = Some (JArr [])\<rparr>" "JArr []"]
  by (simp add: batch_query_def)

section \<open>Click tracking: the request and the result\<close>

text \<open>
  Called with the empty string as \<^verbatim>\<open>requestId\<close>, an argument that is provided,
  \<^verbatim>\<open>trackClick\<close> sends the empty object: the guard \<^verbatim>\<open>if (requestId)\<close> tests
  truthiness, not presence.
\<close>

theorem trackClick_empty_requestId_counterexample:
  "(Some '''' :: string option) \<noteq> None
   \<and> body (trackClick_request ''imp-1'' ''key'' (Some '''')) = Some (JObj [])"
  by (simp add: trackClick_request_def trackClick_payload_def truthy_string_def)

text \<open>
  C6 (as amended). For every impression id, \<^verbatim>\<open>trackClick\<close> posts to
  \<^verbatim>\<open>/clicks/{impression_id}\<close> a JSON body that contains \<^verbatim>\<open>request_id\<close> exactly when
  \<^verbatim>\<open>requestId\<close> is given and is not the empty string, and is the empty object
  otherwise; on an ok response it resolves with the parsed JSON body, whatever the
  service put there (the click timestamp, by the interface).
\<close>

theorem trackClick_request_and_result:
  "request_url (trackClick_request impressionId key requestId)
     = ''https://api.ad-tokens.com/clicks/'' @ impressionId
   \<and> http_method (trackClick_request impressionId key requestId) = ''POST''
   \<and> body (trackClick_request impressionId key requestId)
     = Some (JObj (case requestId of
                     None \<Rightarrow> []
                   | Some r \<Rightarrow> if r = [] then [] else [(''request_id'', JStr r)]))
   \<and> (fetch (trackClick_request impressionId key requestId) = Resolved response \<and> ok response
         \<and> json_body response = Some v
        \<longrightarrow> trackClick fetch impressionId key requestId = ([], Inr v))"
  by (simp add: trackClick_request_def trackClick_payload_def truthy_string_def trackClick_def
      json_or_throw_def log_and_rethrow_def split: option.split)

text \<open>A click with a request id, answered with a timestamp.\<close>

theorem trackClick_request_and_result_witness:
  "body (trackClick_request ''imp-1'' ''key'' (Some ''req-7'')) = Some (JObj [(''request_id'', JStr ''req-7'')])
   \<and> trackClick (\<lambda>req. Resolved \<lparr>ok = True, status = 200,
          json_body = Some (JObj [(''timestamp'', JStr ''2024-01-15T10:30:00Z'')])\<rparr>)
        ''imp-1'' ''key'' (Some ''req-7'')
      = ([], Inr (JObj [(''timestamp'', JStr ''2024-01-15T10:30:00Z'')]))"
  using trackClick_request_and_result
    [of "''imp-1''" "''key''" "Some ''req-7''"
        "\<lambda>req. Resolved \<lparr>ok = True, status = 200,
          json_body = Some (JObj [(''timestamp'', JStr ''2024-01-15T10:30:00Z'')])\<rparr>"
        "\<lparr>ok = True, status = 200,
          json_body = Some (JObj [(''timestamp'', JStr ''2024-01-15T10:30:00Z'')])\<rparr>"
        "JObj [(''timestamp'', JStr ''2024-01-15T10:30:00Z'')]"]
  by simp

section \<open>The agent never throws on a click\<close>

text \<open>
  The service answers the click with status 500: the method resolves and nothing is
  written to the console, so this failure is not logged.
\<close>

theorem AdTokensAgent_trackClick_http_error_counterexample:
  "\<not> ok \<lparr>ok = False, status = 500, json_body = None\<rparr>
   \<and> AdTokensAgent_trackClick (\<lambda>req. Resolved \<lparr>ok = False, status = 500, json_body = None\<rparr>)
        (AdTokensAgent_new ''key'') ''imp-1'' = ([], Inr ())"
  by (simp add: AdTokensAgent_trackClick_def)

text \<open>
  C7 (as amended). For every impression id and every outcome of \<^verbatim>\<open>fetch\<close>, the
  agent's \<^verbatim>\<open>trackClick\<close> resolves without throwing. A warning is logged exactly when
  \<^verbatim>\<open>fetch\<close> itself rejects (a network failure); a response is not inspected, so an
  error status is neither logged nor surfaced.
\<close>

theorem AdTokensAgent_trackClick_never_throws:
  "snd (AdTokensAgent_trackClick fetch self impressionId) = Inr ()
   \<and> fst (AdTokensAgent_trackClick fetch self impressionId)
     = (case fetch (AdTokensAgent_trackClick_request self impressionId) of
          Rejected msg \<Rightarrow> [ConsoleWarn (''Warning: Failed to track click: '' @ msg)]
        | Resolved response \<Rightarrow> [])"
  by (simp add: AdTokensAgent_trackClick_def split: fetch_result.split)

text \<open>A network failure: one warning, no error.\<close>

theorem AdTokensAgent_trackClick_never_throws_witness:
  "AdTokensAgent_trackClick (\<lambda>req. Rejected ''fetch failed'') (AdTokensAgent_new ''key'') ''imp-1''
     = ([ConsoleWarn ''Warning: Failed to track click: fetch failed''], Inr ())"
  using AdTokensAgent_trackClick_never_throws
    [of "\<lambda>req. Rejected ''fetch failed''" "AdTokensAgent_new ''key''" "''imp-1''"]
  by (simp add: prod_eq_iff)

section \<open>Formatting products for the agent\<close>

lemma format_each_disclosure:
  "format_each i (map (\<lambda>q. q\<lparr>AdResponse.disclosure_text := g q\<rparr>) ps) = format_each i ps"
  by (induction ps arbitrary: i) (simp_all add: format_product_def)

text \<open>
  C10. For a \<^verbatim>\<open>null\<close> or empty list \<^verbatim>\<open>formatProductsForAgent\<close> returns exactly
  \<^verbatim>\<open>No products found.\<close>. For a non-empty list the result is the heading and the
  entries of the products, followed by the disclosure text of the first product between
  two newlines when that product has one (nothing is added for an empty text); the
  disclosure texts of the later products have no influence on the result.
\<close>

theorem formatProductsForAgent_disclosure:
  "formatProductsForAgent None = ''No products found.''
   \<and> formatProductsForAgent (Some []) = ''No products found.''
   \<and> formatProductsForAgent (Some (first # rest))
     = ''Here are some product recommendations:'' @ nl @ nl @ format_each 0 (first # rest)
       @ (case AdResponse.disclosure_text first of
            None \<Rightarrow> []
          | Some d \<Rightarrow> if d = [] then [] else nl @ d @ nl)
   \<and> formatProductsForAgent (Some (first # map (\<lambda>q. q\<lparr>AdResponse.disclosure_text := g q\<rparr>) rest))
     = formatProductsForAgent (Some (first # rest))"
  by (simp add: formatProductsForAgent_def truthy_string_def format_each_disclosure
      split: option.split)

text \<open>Two products with different disclosure texts: only the first text is shown.\<close>

theorem formatProductsForAgent_disclosure_witness:
  "formatProductsForAgent (Some
     [\<lparr>AdResponse.product_id = ''p1'', impression_id = ''i1'', title = ''Mic'', description = ''d'',
       url = ''https://x/1'', price = ''$5'', merchant = ''M'', brand = ''B'', relevance_score = 1,
       relevance_explanation = ''because'', disclosure_text = Some ''Ad''\<rparr>,
      \<lparr>AdResponse.product_id = ''p2'', impression_id = ''i2'', title = ''Stand'', description = ''d'',
       url = ''https://x/2'', price = ''$7'', merchant = ''N'', brand = ''C'', relevance_score = 1,
       relevance_explanation = ''also'', disclosure_text = Some ''Other''\<rparr>])
   = ''Here are some product recommendations:'' @ nl @ nl
     @ ''1. **Mic**'' @ nl @ ''   - Price: $5'' @ nl @ ''   - Merchant: M'' @ nl @ ''   - because'' @ nl
     @ ''   - [View Product](https://x/1)'' @ nl @ nl
     @ ''2. **Stand**'' @ nl @ ''   - Price: $7'' @ nl @ ''   - Merchant: N'' @ nl @ ''   - also'' @ nl
     @ ''   - [View Product](https://x/2)'' @ nl @ nl
     @ nl @ ''Ad'' @ nl"
proof -
  let ?p1 = "\<lparr>AdResponse.product_id = ''p1'', impression_id = ''i1'', title = ''Mic'', description = ''d'',
       url = ''https://x/1'', price = ''$5'', merchant = ''M'', brand = ''B'', relevance_score = 1,
       relevance_explanation = ''because'', disclosure_text = Some ''Ad''\<rparr>"
  let ?p2 = "\<lparr>AdResponse.product_id = ''p2'', impression_id = ''i2'', title = ''Stand'', description = ''d'',
       url = ''https://x/2'', price = ''$7'', merchant = ''N'', brand = ''C'', relevance_score = 1,
       relevance_explanation = ''also'', disclosure_text = Some ''Other''\<rparr>"
  have entries: "format_each 0 [?p1, ?p2]
     = ''1. **Mic**'' @ nl @ ''   - Price: $5'' @ nl @ ''   - Merchant: M'' @ nl @ ''   - because'' @ nl
     @ ''   - [View Product](https://x/1)'' @ nl @ nl
     @ ''2. **Stand**'' @ nl @ ''   - Price: $7'' @ nl @ ''   - Merchant: N'' @ nl @ ''   - also'' @ nl
     @ ''   - [View Product](https://x/2)'' @ nl @ nl"
    by code_simp
  from formatProductsForAgent_disclosure [of ?p1 "[?p2]"]
  have "formatProductsForAgent (Some [?p1, ?p2])
     = ''Here are some product recommendations:'' @ nl @ nl @ format_each 0 [?p1, ?p2] @ (nl @ ''Ad'' @ nl)"
    by simp
  then show ?thesis
    unfolding entries by simp
qed

section \<open>Streaming search is independent of the chunking\<close>

text \<open>
  An event whose second product is \<^verbatim>\<open>null\<close>: the first product is reported, the second
  is counted and the read of its title throws, so the third product and the total are
  not reached and the handler writes its two warnings.
\<close>

lemma process_line_null_product:
  "process_line
     \<lparr>JSON_parse = (\<lambda>s. Inr (JSObject
          [(''results'', JSArray [JSObject [(''title'', JSString ''Headphones''), (''price'', JSString ''$348''),
                                            (''relevance_score'', JSNumber (1 :: nat))],
                                  JSNull,
                                  JSObject [(''title'', JSString ''Earbuds'')]]),
           (''metadata'', JSObject [(''total_matches'', JSNumber 3)])])),
      number_truthy = (\<lambda>n. n \<noteq> 0), number_toString = show_nat,
      percent_toFixed2 = (\<lambda>x. ''100.00''),
      null_read_message = (\<lambda>name. ''Cannot read properties of null (reading '' @ name @ '')''),
      not_iterable_message = (\<lambda>v. ''data.results is not iterable'')\<rparr>
     ''data: {}'' (0, [])
   = (2, [ConsoleLog (check_mark @ '' Product 1: Headphones''), ConsoleLog ''   Price: $348'',
          ConsoleLog (''   Relevance: 100.00%'' @ nl),
          ConsoleWarn (warning_sign @ ''  Failed to parse JSON: Cannot read properties of null (reading title)''),
          ConsoleWarn ''   Line: data: {}''])"
  by code_simp

lemma split_on_not_Nil: "split_on d xs \<noteq> []"
  by (induction xs) (auto split: list.splits elim: prepend_char.elims)

text \<open>The pieces of a text that arrives in two parts.\<close>

lemma split_on_append:
  "split_on d (a @ b) = butlast (split_on d a) @ split_on d (last (split_on d a) @ b)"
proof (induction a)
  case Nil
  show ?case by simp
next
  case (Cons c a)
  show ?case
  proof (cases "c = d")
    case True
    with Cons show ?thesis by (simp add: split_on_not_Nil)
  next
    case False
    obtain l ls where r: "split_on d a = l # ls"
      using split_on_not_Nil [of d a] by (cases "split_on d a") auto
    show ?thesis
    proof (cases ls)
      case Nil
      with False r Cons show ?thesis by simp
    next
      case (Cons l2 ls2)
      with False r Cons.IH show ?thesis by simp
    qed
  qed
qed

lemma butlast_split_on_append:
  "butlast (split_on d (a @ b)) = butlast (split_on d a) @ butlast (split_on d (last (split_on d a) @ b))"
  by (subst split_on_append) (simp add: butlast_append split_on_not_Nil)

lemma last_split_on_append:
  "last (split_on d (a @ b)) = last (split_on d (last (split_on d a) @ b))"
  by (subst split_on_append) (simp add: split_on_not_Nil)

lemma process_chunk_eq:
  "process_chunk decode rt chunk st =
     \<lparr>decoder_state = fst (decode (decoder_state st) chunk),
      buffer = last (split_on (CHR 0x0A) (buffer st @ snd (decode (decoder_state st) chunk))),
      progress = fold (process_line rt)
                   (butlast (split_on (CHR 0x0A) (buffer st @ snd (decode (decoder_state st) chunk))))
                   (progress st)\<rparr>"
proof -
  obtain d t where dt: "decode (decoder_state st) chunk = (d, t)"
    by (cases "decode (decoder_state st) chunk")
  let ?ls = "split_on (CHR 0x0A) (buffer st @ t)"
  show ?thesis
  proof (cases "rev ?ls")
    case Nil
    then show ?thesis using split_on_not_Nil [of "CHR 0x0A" "buffer st @ t"] by simp
  next
    case (Cons kept others)
    then have "?ls = rev others @ [kept]"
      by (simp add: rev_eq_Cons_iff)
    then have "last ?ls = kept" and "butlast ?ls = rev others"
      by simp_all
    with Cons show ?thesis
      by (simp add: process_chunk_def dt)
  qed
qed

lemma split_on_absent: "d \<notin> set xs \<Longrightarrow> split_on d xs = [xs]"
  by (induction xs) auto

lemma last_split_on_free: "d \<notin> set (last (split_on d xs))"
proof (induction xs)
  case Nil
  show ?case by simp
next
  case (Cons c xs)
  obtain l ls where r: "split_on d xs = l # ls"
    using split_on_not_Nil [of d xs] by (cases "split_on d xs") auto
  with Cons show ?case by (cases ls) auto
qed

lemma streaming_decoder_Nil: "streaming_decoder decode \<Longrightarrow> decode d [] = (d, [])"
  by (simp add: streaming_decoder_def)

lemma streaming_decoder_append:
  "streaming_decoder decode \<Longrightarrow>
   decode d (a @ b) = (fst (decode (fst (decode d a)) b), snd (decode d a) @ snd (decode (fst (decode d a)) b))"
  by (simp add: streaming_decoder_def split: prod.splits)

text \<open>The state after a list of chunks, in terms of the whole stream.\<close>

lemma fold_process_chunk:
  assumes "streaming_decoder decode"
  shows "CHR 0x0A \<notin> set (buffer st) \<Longrightarrow>
     fold (process_chunk decode rt) chunks st =
     \<lparr>decoder_state = fst (decode (decoder_state st) (concat chunks)),
      buffer = last (split_on (CHR 0x0A) (buffer st @ snd (decode (decoder_state st) (concat chunks)))),
      progress = fold (process_line rt)
                   (butlast (split_on (CHR 0x0A) (buffer st @ snd (decode (decoder_state st) (concat chunks)))))
                   (progress st)\<rparr>"
proof (induction chunks arbitrary: st)
  case Nil
  then show ?case
    by (simp add: streaming_decoder_Nil [OF assms] split_on_absent)
next
  case (Cons c cs)
  let ?st1 = "process_chunk decode rt c st"
  have free: "CHR 0x0A \<notin> set (buffer ?st1)"
    by (simp add: process_chunk_eq last_split_on_free)
  have step: "fold (process_chunk decode rt) (c # cs) st = fold (process_chunk decode rt) cs ?st1"
    by simp
  have st1:
    "decoder_state ?st1 = fst (decode (decoder_state st) c)"
    "buffer ?st1 = last (split_on (CHR 0x0A) (buffer st @ snd (decode (decoder_state st) c)))"
    "progress ?st1 = fold (process_line rt)
        (butlast (split_on (CHR 0x0A) (buffer st @ snd (decode (decoder_state st) c)))) (progress st)"
    by (simp_all add: process_chunk_eq)
  have dec: "decode (decoder_state st) (concat (c # cs)) =
      (fst (decode (fst (decode (decoder_state st) c)) (concat cs)),
       snd (decode (decoder_state st) c) @ snd (decode (fst (decode (decoder_state st) c)) (concat cs)))"
    using streaming_decoder_append [OF assms, of "decoder_state st" c "concat cs"] by simp
  show ?case
    unfolding step Cons.IH [OF free] st1 dec
    by (simp add: butlast_split_on_append [of _ "buffer st @ snd (decode (decoder_state st) c)", simplified]
        last_split_on_append [of _ "buffer st @ snd (decode (decoder_state st) c)", simplified])
qed

text \<open>
  C8. For every byte stream and every way of cutting it into chunks, the reading loop of
  \<^verbatim>\<open>streamSearch\<close> ends in the same state as when the whole stream arrives in one
  chunk: the same products are reported in the same order and the final count is the
  same. The lines handled are the lines of the whole text that a newline ends, in
  order; the text after the last newline stays in the buffer, so a line that a chunk
  leaves incomplete is handled once a later chunk completes it and not before.
\<close>

theorem streamSearch_chunking_invariant:
  assumes "streaming_decoder decode"
  shows "read_loop decode d0 rt chunks = read_loop decode d0 rt [concat chunks]
   \<and> progress (read_loop decode d0 rt chunks)
       = fold (process_line rt) (butlast (split_on (CHR 0x0A) (snd (decode d0 (concat chunks))))) (0, [])
   \<and> buffer (read_loop decode d0 rt chunks) = last (split_on (CHR 0x0A) (snd (decode d0 (concat chunks))))
   \<and> (fetch (streamSearch_request q key) = StreamResolved response \<longrightarrow>
        streamSearch decode d0 rt fetch q key
        = streamSearch decode d0 rt
            (\<lambda>req. StreamResolved (response\<lparr>stream_body := map_option (\<lambda>cs. [concat cs]) (stream_body response)\<rparr>))
            q key)"
proof -
  have whole: "read_loop decode d0 rt cs =
     \<lparr>decoder_state = fst (decode d0 (concat cs)),
      buffer = last (split_on (CHR 0x0A) (snd (decode d0 (concat cs)))),
      progress = fold (process_line rt) (butlast (split_on (CHR 0x0A) (snd (decode d0 (concat cs))))) (0, [])\<rparr>"
    for cs
    unfolding read_loop_def
    by (subst fold_process_chunk [OF assms]) simp_all
  have same: "read_loop decode d0 rt cs = read_loop decode d0 rt [concat cs]" for cs
    by (simp add: whole [of cs] whole [of "[concat cs]"])
  have search: "fetch (streamSearch_request q key) = StreamResolved response \<longrightarrow>
        streamSearch decode d0 rt fetch q key
        = streamSearch decode d0 rt
            (\<lambda>req. StreamResolved (response\<lparr>stream_body := map_option (\<lambda>cs. [concat cs]) (stream_body response)\<rparr>))
            q key"
    by (cases "stream_body response")
       (simp_all add: streamSearch_def streamSearch_try_def same [symmetric]
          split: option.split sum.split)
  have p: "progress (read_loop decode d0 rt chunks)
       = fold (process_line rt) (butlast (split_on (CHR 0x0A) (snd (decode d0 (concat chunks))))) (0, [])"
    by (simp add: whole [of chunks])
  have b: "buffer (read_loop decode d0 rt chunks) = last (split_on (CHR 0x0A) (snd (decode d0 (concat chunks))))"
    by (simp add: whole [of chunks])
  from same [of chunks] p b search show ?thesis by blast
qed

text \<open>
  A stream cut inside the prefix \<^verbatim>\<open>data: \<close> and inside a line: two products are
  reported, and the unfinished third line is not.
\<close>

theorem streamSearch_chunking_invariant_witness:
  "streaming_decoder (\<lambda>d b. (d :: unit, b))
   \<and> progress (read_loop (\<lambda>d b. (d, b)) ()
        \<lparr>JSON_parse = (\<lambda>s. if s = ''bad'' then Inl ''Unexpected token'' else
             Inr (JSObject [(''results'', JSArray [JSObject [(''title'', JSString s), (''price'', JSString ''$1''),
                                                             (''relevance_score'', JSNumber (1 :: nat))]])])),
          number_truthy = (\<lambda>n. n \<noteq> 0), number_toString = show_nat,
          percent_toFixed2 = (\<lambda>x. ''100.00''),
          null_read_message = (\<lambda>name. ''Cannot read properties of null''),
          not_iterable_message = (\<lambda>v. ''data.results is not iterable'')\<rparr>
        [''da'', ''ta: x'' @ nl @ ''  data: '', ''y'' @ nl @ ''data: z''])
     = (2, [ConsoleLog (check_mark @ '' Product 1: x''), ConsoleLog ''   Price: $1'',
            ConsoleLog (''   Relevance: 100.00%'' @ nl),
            ConsoleLog (check_mark @ '' Product 2: y''), ConsoleLog ''   Price: $1'',
            ConsoleLog (''   Relevance: 100.00%'' @ nl)])"
proof -
  let ?dec = "\<lambda>d b. (d :: unit, b :: string)"
  let ?rt = "\<lparr>JSON_parse = (\<lambda>s. if s = ''bad'' then Inl ''Unexpected token'' else
             Inr (JSObject [(''results'', JSArray [JSObject [(''title'', JSString s), (''price'', JSString ''$1''),
                                                             (''relevance_score'', JSNumber (1 :: nat))]])])),
          number_truthy = (\<lambda>n. n \<noteq> 0), number_toString = show_nat,
          percent_toFixed2 = (\<lambda>x. ''100.00''),
          null_read_message = (\<lambda>name. ''Cannot read properties of null''),
          not_iterable_message = (\<lambda>v. ''data.results is not iterable'')\<rparr>"
  let ?chunks = "[''da'', ''ta: x'' @ nl @ ''  data: '', ''y'' @ nl @ ''data: z'']"
  have sd: "streaming_decoder ?dec"
    by (simp add: streaming_decoder_def)
  from streamSearch_chunking_invariant [OF sd, of "()" ?rt ?chunks]
  have same: "read_loop ?dec () ?rt ?chunks = read_loop ?dec () ?rt [concat ?chunks]"
    by blast
  have whole: "progress (read_loop ?dec () ?rt [concat ?chunks])
     = (2, [ConsoleLog (check_mark @ '' Product 1: x''), ConsoleLog ''   Price: $1'',
            ConsoleLog (''   Relevance: 100.00%'' @ nl),
            ConsoleLog (check_mark @ '' Product 2: y''), ConsoleLog ''   Price: $1'',
            ConsoleLog (''   Relevance: 100.00%'' @ nl)])"
    by code_simp
  from sd same whole show ?thesis by simp
qed

section \<open>The session id across the calls of an agent\<close>

lemma payload_session_id_request: "payload_session_id (searchProducts_request self args) = current_session self"
  by (simp add: payload_session_id_def searchProducts_request_def searchProducts_payload_def current_session_def
      split: option.split)

text \<open>What the guards of \<^verbatim>\<open>searchProducts\<close> let through, by the shape of the result.\<close>

lemma result_session_id_shape:
  "(case result_session_id result of Inl e \<Rightarrow> None | Inr s \<Rightarrow> s)
     = (case result of
          JObj fs \<Rightarrow>
            (case map_of fs ''metadata'' of
               Some (JObj ms) \<Rightarrow>
                 (case map_of ms ''session_id'' of
                    None \<Rightarrow> None
                  | Some s \<Rightarrow> if truthy s then Some s else None)
             | _ \<Rightarrow> None)
        | _ \<Rightarrow> None)"
proof (cases result)
  case (JObj fs)
  show ?thesis
  proof (cases "map_of fs ''metadata''")
    case None
    with JObj show ?thesis by (simp add: result_session_id_def)
  next
    case (Some m)
    with JObj show ?thesis
      by (cases m) (simp_all add: result_session_id_def split: option.split)
  qed
qed (simp_all add: result_session_id_def)

lemma answer_session_id_result:
  "answer_session_id answer
     = (case answer of
          Rejected msg \<Rightarrow> None
        | Resolved response \<Rightarrow>
            if \<not> ok response then None
            else
              (case json_body response of
                 None \<Rightarrow> None
               | Some result \<Rightarrow> (case result_session_id result of Inl e \<Rightarrow> None | Inr s \<Rightarrow> s)))"
  by (simp add: answer_session_id_def result_session_id_shape
      split: fetch_result.split option.split json.split)

lemma answer_session_id_truthy: "answer_session_id answer = Some s \<Longrightarrow> truthy s"
  by (auto simp: answer_session_id_def
      split: fetch_result.splits option.splits json.splits if_splits)

lemma sessionId_searchProducts:
  "sessionId (fst (searchProducts fetch self args))
     = (case answer_session_id (fetch (searchProducts_request self args)) of
          None \<Rightarrow> sessionId self
        | Some s \<Rightarrow> s)"
  by (simp add: searchProducts_def answer_session_id_result
      split: fetch_result.split option.split sum.split)

lemma current_session_after_call:
  "current_session (fst (searchProducts fetch self args))
     = (case answer_session_id (fetch (searchProducts_request self args)) of
          None \<Rightarrow> current_session self
        | Some s \<Rightarrow> Some s)"
  by (auto simp: current_session_def sessionId_searchProducts dest: answer_session_id_truthy split: option.split)

lemma searchProducts_calls_session:
  "fst (searchProducts_calls self calls) = earlier @ (req, answer) # later \<Longrightarrow>
   payload_session_id req = latest_session (current_session self) (map snd earlier)"
proof (induction calls arbitrary: self earlier)
  case Nil
  then show ?case by simp
next
  case (Cons call calls)
  obtain args fetch where call: "call = (args, fetch)" by (cases call)
  let ?self1 = "fst (searchProducts fetch self args)"
  let ?req0 = "searchProducts_request self args"
  have trace: "fst (searchProducts_calls self (call # calls))
      = (?req0, fetch ?req0) # fst (searchProducts_calls ?self1 calls)"
    by (simp add: call split: prod.split)
  show ?case
  proof (cases earlier)
    case Nil
    with Cons.prems trace have "req = ?req0" by simp
    with Nil show ?thesis by (simp add: payload_session_id_request)
  next
    case (Cons e earlier1)
    with Cons.prems trace have e: "e = (?req0, fetch ?req0)"
      and rest: "fst (searchProducts_calls ?self1 calls) = earlier1 @ (req, answer) # later"
      by simp_all
    from Cons.IH [OF rest] have "payload_session_id req = latest_session (current_session ?self1) (map snd earlier1)" .
    then show ?thesis
      by (simp add: Cons e current_session_after_call)
  qed
qed

lemma latest_session_None:
  "latest_session current answers = None \<longleftrightarrow>
     current = None \<and> (\<forall>a \<in> set answers. answer_session_id a = None)"
  by (induction answers arbitrary: current) (auto split: option.splits)

text \<open>
  Two answers whose metadata carry a session id that the agent does not keep: an ok
  response with the empty string as session id, and a response with status 500. The
  request of the next call has no \<^verbatim>\<open>session_id\<close> field.
\<close>

theorem searchProducts_session_id_counterexample:
  "get_prop (JObj [(''session_id'', JStr '''')]) ''session_id'' = Inr (Some (JStr ''''))
   \<and> map (payload_session_id \<circ> fst)
        (fst (searchProducts_calls (AdTokensAgent_new ''key'')
          [(\<lparr>arg_query = ''mic'', arg_limit = None, arg_context = None\<rparr>,
            \<lambda>req. Resolved \<lparr>ok = True, status = 200,
              json_body = Some (JObj [(''metadata'', JObj [(''session_id'', JStr '''')])])\<rparr>),
           (\<lparr>arg_query = ''mic'', arg_limit = None, arg_context = None\<rparr>,
            \<lambda>req. Resolved \<lparr>ok = True, status = 200, json_body = Some (JObj [])\<rparr>)]))
      = [None, None]
   \<and> map (payload_session_id \<circ> fst)
        (fst (searchProducts_calls (AdTokensAgent_new ''key'')
          [(\<lparr>arg_query = ''mic'', arg_limit = None, arg_context = None\<rparr>,
            \<lambda>req. Resolved \<lparr>ok = False, status = 500,
              json_body = Some (JObj [(''metadata'', JObj [(''session_id'', JStr ''s-1'')])])\<rparr>),
           (\<lparr>arg_query = ''mic'', arg_limit = None, arg_context = None\<rparr>,
            \<lambda>req. Resolved \<lparr>ok = True, status = 200, json_body = Some (JObj [])\<rparr>)]))
      = [None, None]"
  by code_simp

text \<open>
  C9 (as amended). The agent's \<^verbatim>\<open>sessionId\<close> starts as \<^verbatim>\<open>null\<close>, and a call leaves it as
  it is or overwrites it with the session id of the answer. In every sequence of calls
  the payload of a request has a \<^verbatim>\<open>session_id\<close> field if and only if an earlier call was
  answered with an ok response whose parsed body has a truthy (for a string: non-empty)
  \<^verbatim>\<open>metadata.session_id\<close>, and the value sent is the most recent such session id.
\<close>

theorem searchProducts_session_id:
  "sessionId (AdTokensAgent_new key) = JNull
   \<and> (sessionId (fst (searchProducts fetch self args)) = sessionId self
      \<or> answer_session_id (fetch (searchProducts_request self args))
          = Some (sessionId (fst (searchProducts fetch self args))))
   \<and> (fst (searchProducts_calls (AdTokensAgent_new key) calls) = earlier @ (req, answer) # later \<longrightarrow>
        payload_session_id req = latest_session None (map snd earlier)
        \<and> (payload_session_id req \<noteq> None \<longleftrightarrow> (\<exists>a \<in> set (map snd earlier). answer_session_id a \<noteq> None)))"
proof -
  have new: "current_session (AdTokensAgent_new key) = None"
    by (simp add: current_session_def AdTokensAgent_new_def)
  have a: "sessionId (AdTokensAgent_new key) = JNull"
    by (simp add: AdTokensAgent_new_def)
  have b: "sessionId (fst (searchProducts fetch self args)) = sessionId self
      \<or> answer_session_id (fetch (searchProducts_request self args))
          = Some (sessionId (fst (searchProducts fetch self args)))"
    by (simp add: sessionId_searchProducts split: option.split)
  have c: "payload_session_id req = latest_session None (map snd earlier)
        \<and> (payload_session_id req \<noteq> None \<longleftrightarrow> (\<exists>a \<in> set (map snd earlier). answer_session_id a \<noteq> None))"
    if "fst (searchProducts_calls (AdTokensAgent_new key) calls) = earlier @ (req, answer) # later"
    using searchProducts_calls_session [OF that] latest_session_None [of None "map snd earlier"]
    by (simp add: new)
  from a b c show ?thesis by blast
qed

text \<open>Three calls: the session id of the first answer is sent with the second and the third.\<close>

theorem searchProducts_session_id_witness:
  "map (payload_session_id \<circ> fst)
        (fst (searchProducts_calls (AdTokensAgent_new ''key'')
          [(\<lparr>arg_query = ''mic'', arg_limit = None, arg_context = None\<rparr>,
            \<lambda>req. Resolved \<lparr>ok = True, status = 200,
              json_body = Some (JObj [(''metadata'', JObj [(''session_id'', JStr ''s-1'')])])\<rparr>),
           (\<lparr>arg_query = ''stand'', arg_limit = Some 5, arg_context = None\<rparr>,
            \<lambda>req. Resolved \<lparr>ok = True, status = 200, json_body = Some (JObj [])\<rparr>),
           (\<lparr>arg_query = ''cable'', arg_limit = None, arg_context = None\<rparr>,
            \<lambda>req. Rejected ''network'')]))
      = [None, Some (JStr ''s-1''), Some (JStr ''s-1'')]"
proof -
  let ?a1 = "Resolved \<lparr>ok = True, status = 200,
              json_body = Some (JObj [(''metadata'', JObj [(''session_id'', JStr ''s-1'')])])\<rparr>"
  let ?a2 = "Resolved \<lparr>ok = True, status = 200, json_body = Some (JObj [])\<rparr>"
  let ?calls = "[(\<lparr>arg_query = ''mic'', arg_limit = None, arg_context = None\<rparr>, \<lambda>req :: http_request. ?a1),
           (\<lparr>arg_query = ''stand'', arg_limit = Some 5, arg_context = None\<rparr>, \<lambda>req. ?a2),
           (\<lparr>arg_query = ''cable'', arg_limit = None, arg_context = None\<rparr>, \<lambda>req. Rejected ''network'')]"
  let ?trace = "fst (searchProducts_calls (AdTokensAgent_new ''key'') ?calls)"
  have len: "length ?trace = 3" and snds: "map snd ?trace = [?a1, ?a2, Rejected ''network'']"
    by code_simp+
  then obtain r1 r2 r3 where trace: "?trace = [(r1, ?a1), (r2, ?a2), (r3, Rejected ''network'')]"
    by (cases ?trace; cases "tl ?trace"; cases "tl (tl ?trace)") auto
  from searchProducts_session_id [where key = "''key''" and calls = ?calls and earlier = "[]"
      and req = r1 and answer = ?a1 and later = "[(r2, ?a2), (r3, Rejected ''network'')]"] trace
  have p1: "payload_session_id r1 = latest_session None []" by simp
  from searchProducts_session_id [where key = "''key''" and calls = ?calls and earlier = "[(r1, ?a1)]"
      and req = r2 and answer = ?a2 and later = "[(r3, Rejected ''network'')]"] trace
  have p2: "payload_session_id r2 = latest_session None [?a1]" by simp
  from searchProducts_session_id [where key = "''key''" and calls = ?calls and earlier = "[(r1, ?a1), (r2, ?a2)]"
      and req = r3 and answer = "Rejected ''network''" and later = "[]"] trace
  have p3: "payload_session_id r3 = latest_session None [?a1, ?a2]" by simp
  have l: "latest_session None [] = None" "latest_session None [?a1] = Some (JStr ''s-1'')"
    "latest_session None [?a1, ?a2] = Some (JStr ''s-1'')"
    by code_simp+
  have "map (payload_session_id \<circ> fst) ?trace
      = [payload_session_id r1, payload_session_id r2, payload_session_id r3]"
    unfolding trace by simp
  then show ?thesis
    unfolding p1 p2 p3 l .
qed

section \<open>The rate limiter keeps the token count non-negative\<close>

lemma refill_tokens_nonneg:
  assumes "0 \<le> tokens b" "0 \<le> capacity b" "0 \<le> refill_rate b" "last_refill b \<le> now"
  shows "0 \<le> tokens (refill b now)"
proof -
  have "0 \<le> (now - last_refill b) * refill_rate b"
    using assms by simp
  with assms show ?thesis
    by (simp add: refill_def)
qed

lemma handle_request_keeps:
  assumes "0 \<le> tokens b" "0 \<le> capacity b" "0 \<le> refill_rate b" "last_refill b \<le> now"
  shows "0 \<le> tokens (snd (handle_request b now))"
    and "capacity (snd (handle_request b now)) = capacity b"
    and "refill_rate (snd (handle_request b now)) = refill_rate b"
    and "last_refill (snd (handle_request b now)) = now"
  using refill_tokens_nonneg [OF assms]
  by (simp_all add: handle_request_def Let_def refill_def)

lemma handle_requests_nonneg:
  "0 \<le> tokens b \<Longrightarrow> 0 \<le> capacity b \<Longrightarrow> 0 \<le> refill_rate b \<Longrightarrow> sorted (last_refill b # nows) \<Longrightarrow>
   r \<in> set (handle_requests b nows) \<Longrightarrow> 0 \<le> tokens (snd r)"
proof (induction nows arbitrary: b)
  case Nil
  then show ?case by simp
next
  case (Cons now nows)
  from Cons.prems(4) have le: "last_refill b \<le> now" and later: "sorted (now # nows)"
    by simp_all
  note keeps = handle_request_keeps [OF Cons.prems(1-3) le]
  from Cons.prems(5) consider "r = handle_request b now"
    | "r \<in> set (handle_requests (snd (handle_request b now)) nows)"
    by auto
  then show ?case
  proof cases
    case 1
    with keeps(1) show ?thesis by simp
  next
    case 2
    have s1: "sorted (last_refill (snd (handle_request b now)) # nows)"
      using later by (simp add: keeps(4))
    show ?thesis
      by (rule Cons.IH [OF keeps(1) _ _ s1 2]) (simp_all add: keeps Cons.prems)
  qed
qed

text \<open>
  C3. For a bucket with a non-negative token count, capacity and refill rate, and for
  every sequence of request times of a monotonic clock, the token count is never negative
  after a request. Each request first refills; it is admitted exactly when the refilled
  count is at least 1, and then the count is decremented; otherwise it is rejected
  with \<^verbatim>\<open>RateLimitExceeded\<close> and the refilled count is left as it is.
\<close>

theorem tokens_never_negative:
  assumes "0 \<le> tokens b" "0 \<le> capacity b" "0 \<le> refill_rate b" "sorted (last_refill b # nows)"
  shows "(\<forall>r \<in> set (handle_requests b nows). 0 \<le> tokens (snd r))
    \<and> (fst (handle_request b now) = Admit \<longleftrightarrow> 1 \<le> tokens (refill b now))
    \<and> (1 \<le> tokens (refill b now) \<longrightarrow>
         snd (handle_request b now) = (refill b now)\<lparr>tokens := tokens (refill b now) - 1\<rparr>)
    \<and> (\<not> 1 \<le> tokens (refill b now) \<longrightarrow>
         handle_request b now
         = (RateLimitExceeded ((1 - tokens (refill b now)) / refill_rate b), refill b now))"
proof -
  have seq: "\<forall>r \<in> set (handle_requests b nows). 0 \<le> tokens (snd r)"
    using handle_requests_nonneg [OF assms] by blast
  have one: "(fst (handle_request b now) = Admit \<longleftrightarrow> 1 \<le> tokens (refill b now))
    \<and> (1 \<le> tokens (refill b now) \<longrightarrow>
         snd (handle_request b now) = (refill b now)\<lparr>tokens := tokens (refill b now) - 1\<rparr>)
    \<and> (\<not> 1 \<le> tokens (refill b now) \<longrightarrow>
         handle_request b now
         = (RateLimitExceeded ((1 - tokens (refill b now)) / refill_rate b), refill b now))"
    by (simp add: handle_request_def Let_def refill_def)
  from seq one show ?thesis by blast
qed

text \<open>
  Capacity 5 and six requests at once: the sixth is rejected; after the refill interval
  the seventh is admitted.
\<close>

theorem tokens_never_negative_witness:
  "map fst (handle_requests
      \<lparr>caller_key = ''k'', tokens = 5, last_refill = 0, capacity = 5, refill_rate = 1\<rparr>
      [0, 0, 0, 0, 0, 0, 1])
     = [Admit, Admit, Admit, Admit, Admit, RateLimitExceeded 1, Admit]
   \<and> list_all (\<lambda>r. 0 \<le> tokens (snd r))
        (handle_requests
          \<lparr>caller_key = ''k'', tokens = 5, last_refill = 0, capacity = 5, refill_rate = 1\<rparr>
          [0, 0, 0, 0, 0, 0, 1])"
proof -
  let ?b = "\<lparr>caller_key = ''k'', tokens = 5, last_refill = 0, capacity = 5, refill_rate = 1 :: rat\<rparr>"
  have "0 \<le> tokens ?b" "0 \<le> capacity ?b" "0 \<le> refill_rate ?b" "sorted (last_refill ?b # [0, 0, 0, 0, 0, 0, 1])"
    by simp_all
  from tokens_never_negative [OF this]
  have "\<forall>r \<in> set (handle_requests ?b [0, 0, 0, 0, 0, 0, 1]). 0 \<le> tokens (snd r)"
    by blast
  moreover have "map fst (handle_requests ?b [0, 0, 0, 0, 0, 0, 1])
     = [Admit, Admit, Admit, Admit, Admit, RateLimitExceeded 1, Admit]"
    by (simp add: handle_request_def refill_def Let_def)
  ultimately show ?thesis by (simp only: list_all_iff)
qed

section \<open>Recording a click twice\<close>




section \<open>The size and the scores of a search result\<close>

lemma length_insert_ranked: "length (insert_ranked m c cs) = Suc (length cs)"
  by (induction cs) simp_all

lemma set_insert_ranked: "set (insert_ranked m c cs) = insert c (set cs)"
  by (induction cs) auto

lemma length_rank: "length (rank m cs) = length cs"
  by (induction cs) (simp_all add: length_insert_ranked)

lemma set_rank: "set (rank m cs) = set cs"
  by (induction cs) (simp_all add: set_insert_ranked)

lemma set_collapse_duplicates: "set (collapse_duplicates cs) \<subseteq> set cs"
  by (induction cs rule: collapse_duplicates.induct) auto

lemma length_collapse_duplicates: "length (collapse_duplicates cs) \<le> length cs"
proof (induction cs rule: collapse_duplicates.induct)
  case 1
  show ?case by simp
next
  case (2 c cs)
  show ?case
  proof (cases "\<exists>d \<in> set cs. product_id (product d) = product_id (product c)
                        \<and> relevance_score c < relevance_score d")
    case True
    with 2(1) show ?thesis by simp
  next
    case False
    have "length (collapse_duplicates (filter (\<lambda>d. product_id (product d) \<noteq> product_id (product c)) cs))
        \<le> length (filter (\<lambda>d. product_id (product d) \<noteq> product_id (product c)) cs)"
      by (rule 2(2) [OF False])
    also have "\<dots> \<le> length cs"
      by (rule length_filter_le)
    finally have "length (collapse_duplicates (filter (\<lambda>d. product_id (product d) \<noteq> product_id (product c)) cs))
        \<le> length cs" .
    with False show ?thesis by auto
  qed
qed

lemma length_filter_and_rank: "length (filter_and_rank cfg d retrieved) \<le> result_limit d"
  by (simp add: filter_and_rank_def)

lemma filter_and_rank_threshold:
  "c \<in> set (filter_and_rank cfg d retrieved) \<Longrightarrow> threshold d \<le> relevance_score c"
  by (auto simp: filter_and_rank_def set_rank dest: in_set_takeD)

lemma length_deduplicate: "length (deduplicate d cs) \<le> length cs"
proof -
  have "length (deduplicate d cs) \<le> length (filter (\<lambda>c. product_id (product c) \<notin> set (exclusion_set d)) cs)"
    unfolding deduplicate_def by (rule length_collapse_duplicates)
  also have "\<dots> \<le> length cs" by (rule length_filter_le)
  finally show ?thesis .
qed

lemma set_deduplicate: "set (deduplicate d cs) \<subseteq> set cs"
  using set_collapse_duplicates [of "filter (\<lambda>c. product_id (product c) \<notin> set (exclusion_set d)) cs"]
  by (auto simp: deduplicate_def)

lemma stamp_candidates: "map candidate (fst (stamp rid sess now cs st)) = cs"
proof (induction cs arbitrary: st)
  case Nil
  show ?case by simp
next
  case (Cons c cs)
  let ?iid = "mint_id (next_impression st)"
  let ?st1 = "\<lparr>impressions = (impressions st)(?iid \<mapsto>
      \<lparr>impression_id = ?iid, request_id = rid, Impression.product_id = product_id (product c),
       session_id = sess, created_at = now, click_timestamp = None, conversion_value = None\<rparr>),
     next_impression = next_impression st + 1\<rparr>"
  obtain rs st2 where rest: "stamp rid sess now cs ?st1 = (rs, st2)"
    by (cases "stamp rid sess now cs ?st1")
  from Cons.IH [of ?st1] rest have "map candidate rs = cs" by simp
  with rest show ?case by (simp add: Let_def)
qed

lemma clamp_limit_min: "1 \<le> l \<Longrightarrow> int (clamp_limit l) = min l 10"
  by (simp add: clamp_limit_def)

lemma normalize_valid:
  assumes "valid_request r"
  shows "\<exists>d. normalize r = Inr d \<and> int (result_limit d) = min (requested_limit r) 10
              \<and> threshold d = requested_threshold r"
proof -
  from assms have q: "query r \<noteq> []"
    and l: "1 \<le> requested_limit r" "requested_limit r \<le> 10"
    and t: "0 \<le> requested_threshold r" "requested_threshold r \<le> 1"
    by (auto simp: valid_request_def requested_limit_def requested_threshold_def split: option.splits)
  from l(1) have "int (clamp_limit (requested_limit r)) = min (requested_limit r) 10"
    by (rule clamp_limit_min)
  with q l t show ?thesis
    by (simp add: normalize_def)
qed

lemma normalize_invalid:
  assumes "\<not> valid_request r"
  shows "normalize r = Inl InvalidInput"
proof -
  from assms have "query r = [] \<or> requested_limit r < 1 \<or> 10 < requested_limit r
      \<or> requested_threshold r < 0 \<or> 1 < requested_threshold r"
    by (auto simp: valid_request_def requested_limit_def requested_threshold_def split: option.splits)
  then show ?thesis
    by (auto simp: normalize_def)
qed

lemma search_bounds:
  assumes d: "normalize r = Inr d"
  shows "length (fst (stamp rid (caller_session d) now (deduplicate d (filter_and_rank cfg d retrieved)) st))
           \<le> result_limit d"
    and "\<forall>x \<in> set (fst (stamp rid (caller_session d) now (deduplicate d (filter_and_rank cfg d retrieved)) st)).
           threshold d \<le> relevance_score (candidate x)"
proof -
  let ?cs = "deduplicate d (filter_and_rank cfg d retrieved)"
  let ?found = "fst (stamp rid (caller_session d) now ?cs st)"
  have cands: "map candidate ?found = ?cs"
    by (rule stamp_candidates)
  then have "length ?found = length ?cs"
    by (metis length_map)
  also have "\<dots> \<le> length (filter_and_rank cfg d retrieved)" by (rule length_deduplicate)
  also have "\<dots> \<le> result_limit d" by (rule length_filter_and_rank)
  finally show "length ?found \<le> result_limit d" .
  show "\<forall>x \<in> set ?found. threshold d \<le> relevance_score (candidate x)"
  proof
    fix x assume "x \<in> set ?found"
    then have "candidate x \<in> set (map candidate ?found)" by simp
    then have "candidate x \<in> set ?cs" by (simp only: cands)
    then have "candidate x \<in> set (filter_and_rank cfg d retrieved)"
      using set_deduplicate [of d "filter_and_rank cfg d retrieved"] by auto
    then show "threshold d \<le> relevance_score (candidate x)"
      by (rule filter_and_rank_threshold)
  qed
qed

text \<open>
  C1. For every valid search request the search succeeds, the number of results is at
  most \<open>min limit 10\<close> (the limit is 3 when the request gives none), and the relevance
  score of every result is at least the minimum relevance threshold of the request, which
  is 0.5 when the request gives none. A request that is not valid is answered with
  InvalidInput.
\<close>

theorem search_results_bounded:
  "(valid_request r \<longrightarrow>
      (\<exists>found st1.
          search cfg retrieved rid now r st = Inr (found, st1)
        \<and> int (length found) \<le> min (requested_limit r) 10
        \<and> (\<forall>x \<in> set found. requested_threshold r \<le> relevance_score (candidate x))
        \<and> (min_relevance_score r = None \<longrightarrow> (\<forall>x \<in> set found. 1 / 2 \<le> relevance_score (candidate x)))))
   \<and> (\<not> valid_request r \<longrightarrow> search cfg retrieved rid now r st = Inl InvalidInput)"
  (is "(_ \<longrightarrow> ?bounded) \<and> (_ \<longrightarrow> ?rejected)")
proof -
  have valid: "\<exists>found st1.
          search cfg retrieved rid now r st = Inr (found, st1)
        \<and> int (length found) \<le> min (requested_limit r) 10
        \<and> (\<forall>x \<in> set found. requested_threshold r \<le> relevance_score (candidate x))
        \<and> (min_relevance_score r = None \<longrightarrow> (\<forall>x \<in> set found. 1 / 2 \<le> relevance_score (candidate x)))"
    if v: "valid_request r"
  proof -
    from normalize_valid [OF v] obtain d where d: "normalize r = Inr d"
      and lim: "int (result_limit d) = min (requested_limit r) 10"
      and thr: "threshold d = requested_threshold r"
      by blast
    let ?res = "stamp rid (caller_session d) now (deduplicate d (filter_and_rank cfg d retrieved)) st"
    from d have s: "search cfg retrieved rid now r st = Inr (fst ?res, snd ?res)"
      by (simp add: search_def)
    from search_bounds(1) [OF d, of rid now cfg retrieved st] lim
    have len: "int (length (fst ?res)) \<le> min (requested_limit r) 10"
      by arith
    from search_bounds(2) [OF d, of rid now cfg retrieved st] thr
    have score: "\<forall>x \<in> set (fst ?res). requested_threshold r \<le> relevance_score (candidate x)"
      by simp
    have dflt: "min_relevance_score r = None \<longrightarrow>
        (\<forall>x \<in> set (fst ?res). 1 / 2 \<le> relevance_score (candidate x))"
    proof
      assume "min_relevance_score r = None"
      then have half: "requested_threshold r = 1 / 2"
        by (simp add: requested_threshold_def)
      from score show "\<forall>x \<in> set (fst ?res). 1 / 2 \<le> relevance_score (candidate x)"
        unfolding half .
    qed
    from s len score dflt show ?thesis
      by (intro exI [of _ "fst ?res"] exI [of _ "snd ?res"] conjI)
  qed
  have invalid: "search cfg retrieved rid now r st = Inl InvalidInput" if "\<not> valid_request r"
    using normalize_invalid [OF that] by (simp add: search_def)
  show ?thesis
  proof (intro conjI impI)
    assume "valid_request r"
    then show ?bounded by (rule valid)
  next
    assume "\<not> valid_request r"
    then show ?rejected by (rule invalid)
  qed
qed

text \<open>
  The scenario of the spec: limit 3, no filters and the default threshold; of the two
  candidates retrieved, the one scored 0.3 is dropped.
\<close>

theorem search_results_bounded_witness:
  "valid_request
      \<lparr>query = ''wireless headphones for running'', limit = Some 3, filters = None, sort = None,
       min_relevance_score = None, SearchRequest.session_id = None, conversation_context = [],
       exclude_product_ids = []\<rparr>
   \<and> (\<exists>found st1.
     search \<lparr>composite_score = (\<lambda>p s. s), keyword_matches = (\<lambda>k p. True)\<rparr>
          [(\<lparr>ProductRecord.product_id = ''p1'', title = ''Headphones'', description = ''wireless'', price = 348,
             currency = ''USD'', merchant = ''Amazon'', brand = ''Sony'', category = ''Electronics'',
             url = ''https://ad-tokens.com/p/1'', last_updated = 0, disclosure_text = None\<rparr>, 9 / 10),
           (\<lparr>ProductRecord.product_id = ''p2'', title = ''Earbuds'', description = ''wired'', price = 20,
             currency = ''USD'', merchant = ''Amazon'', brand = ''Acme'', category = ''Electronics'',
             url = ''https://ad-tokens.com/p/2'', last_updated = 0, disclosure_text = None\<rparr>, 3 / 10)]
          ''req-1'' 0
          \<lparr>query = ''wireless headphones for running'', limit = Some 3, filters = None, sort = None,
           min_relevance_score = None, SearchRequest.session_id = None, conversation_context = [],
           exclude_product_ids = []\<rparr>
          \<lparr>impressions = Map.empty, next_impression = 0\<rparr> = Inr (found, st1)
     \<and> length found = 1 \<and> int (length found) \<le> min 3 10
     \<and> map (ScoredCandidate.relevance_score \<circ> candidate) found = [9 / 10])"
proof -
  let ?cfg = "\<lparr>composite_score = (\<lambda>(p :: ProductRecord) (s :: rat). s), keyword_matches = (\<lambda>(k :: string) (p :: ProductRecord). True)\<rparr>"
  let ?retrieved = "[(\<lparr>ProductRecord.product_id = ''p1'', title = ''Headphones'', description = ''wireless'', price = 348,
             currency = ''USD'', merchant = ''Amazon'', brand = ''Sony'', category = ''Electronics'',
             url = ''https://ad-tokens.com/p/1'', last_updated = 0, disclosure_text = None\<rparr>, 9 / 10 :: rat),
           (\<lparr>ProductRecord.product_id = ''p2'', title = ''Earbuds'', description = ''wired'', price = 20,
             currency = ''USD'', merchant = ''Amazon'', brand = ''Acme'', category = ''Electronics'',
             url = ''https://ad-tokens.com/p/2'', last_updated = 0, disclosure_text = None\<rparr>, 3 / 10)]"
  let ?r = "\<lparr>query = ''wireless headphones for running'', limit = Some 3, filters = None, sort = None,
           min_relevance_score = None, SearchRequest.session_id = None, conversation_context = [],
           exclude_product_ids = []\<rparr>"
  let ?st = "\<lparr>impressions = Map.empty, next_impression = 0\<rparr>"
  have v: "valid_request ?r"
    by (simp add: valid_request_def)
  from search_results_bounded [of ?r ?cfg ?retrieved "''req-1''" 0 ?st, THEN conjunct1, THEN mp, OF v]
  obtain found st1 where s: "search ?cfg ?retrieved ''req-1'' 0 ?r ?st = Inr (found, st1)"
    and len: "int (length found) \<le> min (requested_limit ?r) 10"
    by blast
  from len have le: "int (length found) \<le> min 3 10"
    by (simp add: requested_limit_def)
  have scores0: "map (ScoredCandidate.relevance_score \<circ> candidate)
      (fst (projr (search ?cfg ?retrieved ''req-1'' 0 ?r ?st))) = [9 / 10]"
    by (simp add: search_def normalize_def requested_limit_def requested_threshold_def clamp_limit_def
      deduplicate_def filter_and_rank_def matches_filters_def score_candidate_def Let_def)
  then have scores: "map (ScoredCandidate.relevance_score \<circ> candidate) found = [9 / 10]"
    unfolding s by simp
  from scores have one: "length found = 1"
    by (metis length_map length_Cons list.size(3) One_nat_def)
  from s one scores le have "\<exists>found st1.
     search ?cfg ?retrieved ''req-1'' 0 ?r ?st = Inr (found, st1)
     \<and> length found = 1 \<and> int (length found) \<le> min 3 10
     \<and> map (ScoredCandidate.relevance_score \<circ> candidate) found = [9 / 10]"
    by (intro exI [of _ found] exI [of _ st1] conjI)
  with v show ?thesis by (rule conjI)
qed

end
